theory Spec2Isabelle
  imports Main "HOL-Library.Word"
begin

section \<open>Data model\<close>

text \<open>
  The structs of packages \<open>interfaces\<close>, \<open>structs\<close> and \<open>config\<close> are declared
  outside the sources; each is a record with the fields that the sources read and write.
  A field of another record with the same name is told apart by its qualified name, as
  in Go. Values of type \<open>interface{}\<close> stay opaque.
\<close>

typedecl dyn

type_synonym bytes = string

record CFContext =
  Environment :: string
  Organization :: string
  Space :: string
  Application :: string

record Authorization =
  Username :: string
  Password :: string

text \<open>
  Modelled from the spec: the declaration of \<open>structs.Environment\<close> is not among the
  sources; section 3 of the specification lists its fields.
\<close>

record Environment =
  Name :: string
  Domain :: string
  Foundations :: "string list"
  Authenticate :: bool
  SkipSSL :: bool
  EnableRollback :: bool
  CustomParams :: "string \<rightharpoonup> dyn"

record DeploymentInfo =
  Org :: string
  Space :: string
  AppName :: string
  Environment :: string
  UUID :: string
  Domain :: string
  SkipSSL :: bool
  CustomParams :: "string \<rightharpoonup> dyn"
  Username :: string
  Password :: string
  Data :: "string \<rightharpoonup> dyn"
  Instances :: "16 word"
  Manifest :: string
  HealthCheckEndpoint :: string

record Deployment =
  CFContext :: CFContext
  Authorization :: Authorization

record Config =
  Username :: string
  Password :: string
  Environments :: "string \<rightharpoonup> Environment"

text \<open>
  A diagnosis of the error finder: \<open>Error()\<close>, \<open>Details()\<close> and
  \<open>Solution()\<close>.
\<close>

record LogMatchedError =
  ErrorText :: string
  Details :: "string list"
  Solution :: string

text \<open>
  The error values built by the sources, by constructor; \<open>ExternalError\<close> is any other
  error value that a collaborator (courier, event subscriber, deployer) hands back.
\<close>

datatype error =
    ExternalError string
  | EnvironmentNotFoundError string
  | BasicAuthError
  | InitializationError error
  | EventError string error
  | LoginError string bytes
  | PushError
  | CloudFoundryGetLogsError error error
  | MapRouteError bytes
  | UnmapRouteError string bytes
  | DeleteApplicationError string bytes
  | RenameError string bytes
  | MatchedError LogMatchedError

record DeployResponse =
  StatusCode :: int
  DeploymentInfo :: "DeploymentInfo option"
  Error :: "error option"

definition StatusInternalServerError :: int where
  "StatusInternalServerError = 500"

definition StatusUnauthorized :: int where
  "StatusUnauthorized = 401"

text \<open>The zero values that Go returns beside an error.\<close>

definition zero_Authorization :: Authorization where
  "zero_Authorization = \<lparr>Authorization.Username = [], Authorization.Password = []\<rparr>"

definition zero_Environment :: Environment where
  "zero_Environment =
     \<lparr>Name = [], Environment.Domain = [], Foundations = [], Authenticate = False,
      Environment.SkipSSL = False, EnableRollback = False,
      Environment.CustomParams = Map.empty\<rparr>"

definition zero_DeployResponse :: DeployResponse where
  "zero_DeployResponse = \<lparr>StatusCode = 0, DeploymentInfo = None, Error = None\<rparr>"

subsection \<open>Events\<close>

text \<open>
  The event structs carry, besides the fields below, the response sink, the logger and
  (in the push events) the courier; these are references to the shared state of the call,
  which the model passes to the event manager with the event. \<open>C_PushFinishedEvent\<close> stands for the constant
  \<open>constants.PushFinishedEvent\<close>, whose value is declared outside the sources.
\<close>

datatype event_type = C_PushFinishedEvent

record PushEventData =
  AppPath :: string
  FoundationURL :: string
  TempAppWithUUID :: string
  DeploymentInfo :: DeploymentInfo

record PushFinished =
  CFContext :: CFContext
  Auth :: Authorization
  AppPath :: string
  FoundationURL :: string
  TempAppWithUUID :: string
  Data :: "string \<rightharpoonup> dyn"
  Manifest :: string
  HealthCheckEndpoint :: string

datatype event =
    StopStartedEvent CFContext "string \<rightharpoonup> dyn" Environment Authorization
  | StopFinishedEvent CFContext Authorization Environment "string \<rightharpoonup> dyn"
  | StopFailureEvent CFContext Authorization Environment "string \<rightharpoonup> dyn" "error option"
  | StopSuccessEvent CFContext Authorization Environment "string \<rightharpoonup> dyn"
  | PushFinishedEvent PushFinished
  | Event event_type PushEventData

subsection \<open>The logger\<close>

datatype log_arg = AStr string | AErr error | AName event | AType event_type

datatype log_call =
    Debugf string "log_arg list"
  | Debug string
  | Infof string "log_arg list"
  | Errorf string "log_arg list"
  | LogError error

subsection \<open>The courier and the shared state of a call\<close>

datatype courier_call =
    LoginCall string string string string string bool
  | PushCall string string string "16 word"
  | RenameCall string string
  | DeleteCall string
  | MapRouteCall string string string
  | UnmapRouteCall string string string
  | ExistsCall string
  | LogsCall string
  | CleanUpCall

datatype reply = Out bytes "error option" | Found bool | Err "error option"

datatype action =
    CourierCall courier_call reply
  | EmitEventCall event "error option"
  | EmitCall event "error option"
  | DeployCall DeploymentInfo Environment

text \<open>
  \<open>ext\<close> is the state of everything outside the program (the foundation behind the
  courier, the event subscribers, the deployer), \<open>response\<close> the unread content of the
  response sink, \<open>trace\<close> the calls this program has made on its collaborators with what
  they answered, in call order, and \<open>logs\<close> its calls on the logger.
\<close>

record 'x world =
  ext :: 'x
  response :: bytes
  trace :: "action list"
  logs :: "log_call list"

record 'x Courier =
  Login :: "string \<Rightarrow> string \<Rightarrow> string \<Rightarrow> string \<Rightarrow> string \<Rightarrow> bool \<Rightarrow> 'x \<Rightarrow> (bytes \<times> error option) \<times> 'x"
  Push :: "string \<Rightarrow> string \<Rightarrow> string \<Rightarrow> 16 word \<Rightarrow> 'x \<Rightarrow> (bytes \<times> error option) \<times> 'x"
  Rename :: "string \<Rightarrow> string \<Rightarrow> 'x \<Rightarrow> (bytes \<times> error option) \<times> 'x"
  Delete :: "string \<Rightarrow> 'x \<Rightarrow> (bytes \<times> error option) \<times> 'x"
  MapRoute :: "string \<Rightarrow> string \<Rightarrow> string \<Rightarrow> 'x \<Rightarrow> (bytes \<times> error option) \<times> 'x"
  UnmapRoute :: "string \<Rightarrow> string \<Rightarrow> string \<Rightarrow> 'x \<Rightarrow> (bytes \<times> error option) \<times> 'x"
  Exists :: "string \<Rightarrow> 'x \<Rightarrow> bool \<times> 'x"
  Logs :: "string \<Rightarrow> 'x \<Rightarrow> (bytes \<times> error option) \<times> 'x"
  CleanUp :: "'x \<Rightarrow> error option \<times> 'x"

text \<open>
  Subscribers receive the response sink with the event and may write to it, so an
  emission maps the outside state and the sink to new ones.
\<close>

record 'x EventManager =
  Emit :: "event \<Rightarrow> 'x \<times> bytes \<Rightarrow> error option \<times> 'x \<times> bytes"
  EmitEvent :: "event \<Rightarrow> 'x \<times> bytes \<Rightarrow> error option \<times> 'x \<times> bytes"

definition sink_write :: "bytes \<Rightarrow> 'x world \<Rightarrow> 'x world" where
  "sink_write b w = w\<lparr>response := response w @ b\<rparr>"

definition logc :: "log_call \<Rightarrow> 'x world \<Rightarrow> 'x world" where
  "logc l w = w\<lparr>logs := logs w @ [l]\<rparr>"

definition courier_out ::
  "courier_call \<Rightarrow> ('x \<Rightarrow> (bytes \<times> error option) \<times> 'x) \<Rightarrow> 'x world \<Rightarrow> (bytes \<times> error option) \<times> 'x world" where
  "courier_out c f w =
     (case f (ext w) of
        ((out, err), x) \<Rightarrow>
          ((out, err), w\<lparr>ext := x, trace := trace w @ [CourierCall c (Out out err)]\<rparr>))"

definition courier_exists :: "string \<Rightarrow> ('x \<Rightarrow> bool \<times> 'x) \<Rightarrow> 'x world \<Rightarrow> bool \<times> 'x world" where
  "courier_exists n f w =
     (case f (ext w) of
        (b, x) \<Rightarrow> (b, w\<lparr>ext := x, trace := trace w @ [CourierCall (ExistsCall n) (Found b)]\<rparr>))"

definition courier_cleanup :: "('x \<Rightarrow> error option \<times> 'x) \<Rightarrow> 'x world \<Rightarrow> error option \<times> 'x world" where
  "courier_cleanup f w =
     (case f (ext w) of
        (err, x) \<Rightarrow> (err, w\<lparr>ext := x, trace := trace w @ [CourierCall CleanUpCall (Err err)]\<rparr>))"

definition emit_legacy :: "'x EventManager \<Rightarrow> event \<Rightarrow> 'x world \<Rightarrow> error option \<times> 'x world" where
  "emit_legacy em e w =
     (case Emit em e (ext w, response w) of
        (err, x, r) \<Rightarrow> (err, w\<lparr>ext := x, response := r, trace := trace w @ [EmitCall e err]\<rparr>))"

definition emit_event :: "'x EventManager \<Rightarrow> event \<Rightarrow> 'x world \<Rightarrow> error option \<times> 'x world" where
  "emit_event em e w =
     (case EmitEvent em e (ext w, response w) of
        (err, x, r) \<Rightarrow> (err, w\<lparr>ext := x, response := r, trace := trace w @ [EmitEventCall e err]\<rparr>))"

section \<open>Pusher\<close>

text \<open>
  The \<open>Response\<close> and \<open>Log\<close> of a pusher are the sink and the log of the world it runs
  in; its \<open>Fetcher\<close> is used by none of its methods.
\<close>

definition TemporaryNameSuffix :: string where
  "TemporaryNameSuffix = ''-new-build-''"

record 'x Pusher =
  Courier :: "'x Courier"
  DeploymentInfo :: DeploymentInfo
  EventManager :: "'x EventManager"
  FoundationURL :: string
  AppPath :: string
  Environment :: Environment
  CFContext :: CFContext
  Auth :: Authorization

definition Initially :: "'x Pusher \<Rightarrow> 'x world \<Rightarrow> error option \<times> 'x world" where
  "Initially p w =
     (let di = Pusher.DeploymentInfo p;
          w1 = logc (Debugf (''logging into cloud foundry with parameters:\<newline>''
                  @ [CHR 0x09, CHR 0x09] @ ''foundation URL: %+v\<newline>''
                  @ [CHR 0x09, CHR 0x09] @ ''username: %+v\<newline>''
                  @ [CHR 0x09, CHR 0x09] @ ''org: %+v\<newline>''
                  @ [CHR 0x09, CHR 0x09] @ ''space: %+v'')
                 [AStr (Pusher.FoundationURL p), AStr (DeploymentInfo.Username di),
                  AStr (Org di), AStr (DeploymentInfo.Space di)]) w
      in case courier_out
             (LoginCall (Pusher.FoundationURL p) (DeploymentInfo.Username di)
                (DeploymentInfo.Password di) (Org di) (DeploymentInfo.Space di)
                (DeploymentInfo.SkipSSL di))
             (Login (Pusher.Courier p) (Pusher.FoundationURL p) (DeploymentInfo.Username di)
                (DeploymentInfo.Password di) (Org di) (DeploymentInfo.Space di)
                (DeploymentInfo.SkipSSL di)) w1 of
           ((output, err), w2) \<Rightarrow>
             (let w3 = sink_write output w2
              in case err of
                   Some e \<Rightarrow>
                     (Some (LoginError (Pusher.FoundationURL p) output),
                      logc (Errorf ''could not login to %s'' [AStr (Pusher.FoundationURL p)]) w3)
                 | None \<Rightarrow>
                     (None,
                      logc (Infof ''logged into cloud foundry %s'' [AStr (Pusher.FoundationURL p)]) w3)))"

definition Verify :: "'x Pusher \<Rightarrow> 'x world \<Rightarrow> error option \<times> 'x world" where
  "Verify p w = (None, w)"

text \<open>
  \<open>pushApplication\<close> registers two deferred writes before the push and, on a push error,
  a deferred log call; they run when the function returns, the last registered first.
\<close>

definition pushApplication :: "'x Pusher \<Rightarrow> string \<Rightarrow> string \<Rightarrow> 'x world \<Rightarrow> error option \<times> 'x world" where
  "pushApplication p appName appPath w =
     (let di = Pusher.DeploymentInfo p;
          w1 = logc (Debugf ''pushing app %s to %s'' [AStr appName, AStr (DeploymentInfo.Domain di)]) w;
          w2 = logc (Debugf ''tempdir for app %s: %s'' [AStr appName, AStr appPath]) w1
      in case courier_out (PushCall appName appPath (AppName di) (Instances di))
                (Push (Pusher.Courier p) appName appPath (AppName di) (Instances di)) w2 of
           ((pushOutput, err), w3) \<Rightarrow>
             (let w4 = logc (Infof ''output from Cloud Foundry: \<newline>%s'' [AStr pushOutput]) w3
              in case err of
                   Some e \<Rightarrow>
                     (case courier_out (LogsCall appName) (Logs (Pusher.Courier p) appName) w4 of
                        ((cloudFoundryLogs, cloudFoundryLogsErr), w5) \<Rightarrow>
                          (let result = (case cloudFoundryLogsErr of
                                           Some le \<Rightarrow> CloudFoundryGetLogsError e le
                                         | None \<Rightarrow> PushError);
                               w6 = logc (Errorf ''logs from %s: \<newline>%s''
                                            [AStr appName, AStr cloudFoundryLogs]) w5;
                               w7 = sink_write pushOutput w6;
                               w8 = sink_write cloudFoundryLogs w7
                           in (Some result, w8)))
                 | None \<Rightarrow>
                     (let w5 = logc (Infof ''successfully deployed new build %s'' [AStr appName]) w4;
                          w6 = sink_write pushOutput w5;
                          w7 = sink_write [] w6
                      in (None, w7))))"

definition mapTempAppToLoadBalancedDomain :: "'x Pusher \<Rightarrow> string \<Rightarrow> 'x world \<Rightarrow> error option \<times> 'x world" where
  "mapTempAppToLoadBalancedDomain p appName w =
     (let di = Pusher.DeploymentInfo p;
          w1 = logc (Debugf ''mapping route for %s to %s''
                       [AStr (AppName di), AStr (DeploymentInfo.Domain di)]) w
      in case courier_out (MapRouteCall appName (DeploymentInfo.Domain di) (AppName di))
                (MapRoute (Pusher.Courier p) appName (DeploymentInfo.Domain di) (AppName di)) w1 of
           ((out, err), w2) \<Rightarrow>
             (case err of
                Some e \<Rightarrow>
                  (Some (MapRouteError out),
                   logc (Errorf ''could not map %s to %s''
                           [AStr (AppName di), AStr (DeploymentInfo.Domain di)]) w2)
              | None \<Rightarrow>
                  (let w3 = logc (Infof ''application route created: %s.%s''
                                    [AStr (AppName di), AStr (DeploymentInfo.Domain di)]) w2
                   in (None,
                       sink_write (''application route created: '' @ AppName di @ ''.''
                                   @ DeploymentInfo.Domain di) w3))))"

definition unMapLoadBalancedRoute :: "'x Pusher \<Rightarrow> 'x world \<Rightarrow> error option \<times> 'x world" where
  "unMapLoadBalancedRoute p w =
     (let di = Pusher.DeploymentInfo p
      in if DeploymentInfo.Domain di \<noteq> [] then
           (let w1 = logc (Debugf ''unmapping route %s'' [AStr (AppName di)]) w
            in case courier_out (UnmapRouteCall (AppName di) (DeploymentInfo.Domain di) (AppName di))
                      (UnmapRoute (Pusher.Courier p) (AppName di) (DeploymentInfo.Domain di) (AppName di)) w1 of
                 ((out, err), w2) \<Rightarrow>
                   (case err of
                      Some e \<Rightarrow>
                        (Some (UnmapRouteError (AppName di) out),
                         logc (Errorf ''could not unmap %s'' [AStr (AppName di)]) w2)
                    | None \<Rightarrow>
                        (None, logc (Infof ''unmapped route %s'' [AStr (AppName di)]) w2)))
         else (None, w))"

definition deleteApplication :: "'x Pusher \<Rightarrow> string \<Rightarrow> 'x world \<Rightarrow> error option \<times> 'x world" where
  "deleteApplication p appName w =
     (let w1 = logc (Debugf ''deleting %s'' [AStr appName]) w
      in case courier_out (DeleteCall appName) (Delete (Pusher.Courier p) appName) w1 of
           ((out, err), w2) \<Rightarrow>
             (case err of
                Some e \<Rightarrow>
                  (let w3 = logc (Errorf ''could not delete %s'' [AStr appName]) w2;
                       w4 = logc (Errorf ''deletion error %s'' [AErr e]) w3;
                       w5 = logc (Errorf ''deletion output'' [AStr out]) w4
                   in (Some (DeleteApplicationError appName out), w5))
              | None \<Rightarrow> (None, logc (Infof ''deleted %s'' [AStr appName]) w2)))"

definition renameNewBuildToOriginalAppName :: "'x Pusher \<Rightarrow> 'x world \<Rightarrow> error option \<times> 'x world" where
  "renameNewBuildToOriginalAppName p w =
     (let di = Pusher.DeploymentInfo p;
          w1 = logc (Debugf ''renaming %s to %s''
                       [AStr (AppName di @ TemporaryNameSuffix @ UUID di), AStr (AppName di)]) w
      in case courier_out (RenameCall (AppName di @ TemporaryNameSuffix @ UUID di) (AppName di))
                (Rename (Pusher.Courier p) (AppName di @ TemporaryNameSuffix @ UUID di) (AppName di)) w1 of
           ((out, err), w2) \<Rightarrow>
             (case err of
                Some e \<Rightarrow>
                  (Some (RenameError (AppName di @ TemporaryNameSuffix @ UUID di) out),
                   logc (Errorf ''could not rename %s to %s''
                           [AStr (AppName di @ TemporaryNameSuffix @ UUID di), AStr (AppName di)]) w2)
              | None \<Rightarrow>
                  (None,
                   logc (Infof ''renamed %s to %s''
                           [AStr (AppName di @ TemporaryNameSuffix @ UUID di), AStr (AppName di)]) w2)))"

definition Execute :: "'x Pusher \<Rightarrow> 'x world \<Rightarrow> error option \<times> 'x world" where
  "Execute p w =
     (let di = Pusher.DeploymentInfo p;
          tempAppWithUUID = AppName di @ TemporaryNameSuffix @ UUID di
      in case pushApplication p tempAppWithUUID (Pusher.AppPath p) w of
           (Some err, w1) \<Rightarrow> (Some err, w1)
         | (None, w1) \<Rightarrow>
             (case (if DeploymentInfo.Domain di \<noteq> []
                    then mapTempAppToLoadBalancedDomain p tempAppWithUUID w1
                    else (None, w1)) of
                (Some err, w2) \<Rightarrow> (Some err, w2)
              | (None, w2) \<Rightarrow>
                  (let w3 = logc (Debugf ''emitting a %s event'' [AType C_PushFinishedEvent]) w2;
                       pushData = \<lparr>PushEventData.AppPath = Pusher.AppPath p,
                                   PushEventData.FoundationURL = Pusher.FoundationURL p,
                                   PushEventData.TempAppWithUUID = tempAppWithUUID,
                                   PushEventData.DeploymentInfo = di\<rparr>
                   in case emit_legacy (Pusher.EventManager p) (Event C_PushFinishedEvent pushData) w3 of
                        (Some err, w4) \<Rightarrow> (Some err, w4)
                      | (None, w4) \<Rightarrow>
                          (let w5 = logc (Infof ''emitted a %s event'' [AType C_PushFinishedEvent]) w4;
                               event = PushFinishedEvent
                                 \<lparr>PushFinished.CFContext = Pusher.CFContext p,
                                  Auth = Pusher.Auth p,
                                  PushFinished.AppPath = Pusher.AppPath p,
                                  PushFinished.FoundationURL = Pusher.FoundationURL p,
                                  PushFinished.TempAppWithUUID = tempAppWithUUID,
                                  PushFinished.Data = DeploymentInfo.Data di,
                                  PushFinished.Manifest = DeploymentInfo.Manifest di,
                                  PushFinished.HealthCheckEndpoint = DeploymentInfo.HealthCheckEndpoint di\<rparr>
                           in case emit_event (Pusher.EventManager p) event w5 of
                                (Some err, w6) \<Rightarrow> (Some err, w6)
                              | (None, w6) \<Rightarrow>
                                  (None, logc (Infof ''emitted a %s event'' [AName event]) w6)))))"

definition Success :: "'x Pusher \<Rightarrow> 'x world \<Rightarrow> error option \<times> 'x world" where
  "Success p w =
     (let di = Pusher.DeploymentInfo p
      in case courier_exists (AppName di) (Exists (Pusher.Courier p) (AppName di)) w of
           (True, w1) \<Rightarrow>
             (case unMapLoadBalancedRoute p w1 of
                (Some err, w2) \<Rightarrow> (Some err, w2)
              | (None, w2) \<Rightarrow>
                  (case deleteApplication p (AppName di) w2 of
                     (Some err, w3) \<Rightarrow> (Some err, w3)
                   | (None, w3) \<Rightarrow> renameNewBuildToOriginalAppName p w3))
         | (False, w1) \<Rightarrow> renameNewBuildToOriginalAppName p w1)"

definition Undo :: "'x Pusher \<Rightarrow> 'x world \<Rightarrow> error option \<times> 'x world" where
  "Undo p w =
     (let di = Pusher.DeploymentInfo p;
          tempAppWithUUID = AppName di @ TemporaryNameSuffix @ UUID di
      in if \<not> EnableRollback (Pusher.Environment p) then
           Success p
             (logc (Errorf ''Failed to deploy, deployment not rolled back due to EnableRollback=false'' []) w)
         else
           (case courier_exists (AppName di) (Exists (Pusher.Courier p) (AppName di)) w of
              (True, w1) \<Rightarrow>
                deleteApplication p tempAppWithUUID
                  (logc (Errorf ''rolling back deploy of %s'' [AStr tempAppWithUUID]) w1)
            | (False, w1) \<Rightarrow>
                renameNewBuildToOriginalAppName p
                  (logc (Errorf ''app %s did not previously exist: not rolling back''
                           [AStr (AppName di)]) w1)))"

definition Finally :: "'x Pusher \<Rightarrow> 'x world \<Rightarrow> error option \<times> 'x world" where
  "Finally p w = courier_cleanup (CleanUp (Pusher.Courier p)) w"

section \<open>StopController\<close>

text \<open>
  The collaborators of the controller are functions on the outside state: the deployer
  (which also receives the response sink and may return a nil pointer, \<open>None\<close>), the
  factory of stop managers, the event manager and the error finder. \<open>Log\<close> holds what
  the controller reads from its logger. The \<open>Error()\<close> methods of the error types are
  declared outside the sources; the functions that print an error take them as the
  parameter \<open>errorString\<close>.
\<close>

record DeploymentLogger =
  UUID :: string

record ('x, 'm) StopController =
  Deployer :: "DeploymentInfo \<Rightarrow> Environment \<Rightarrow> 'm \<Rightarrow> 'x \<times> bytes \<Rightarrow> DeployResponse option \<times> 'x \<times> bytes"
  Log :: DeploymentLogger
  StopManagerFactory :: "DeploymentInfo \<Rightarrow> 'x \<Rightarrow> 'm \<times> 'x"
  Config :: Config
  EventManager :: "'x EventManager"
  ErrorFinder :: "string \<Rightarrow> LogMatchedError list"

datatype panic = IndexOutOfRange | NilPointerDereference

datatype 'a outcome = Returned 'a | Panicked panic

definition Fprintln :: "string \<Rightarrow> 'x world \<Rightarrow> 'x world" where
  "Fprintln s w = sink_write (s @ ''\<newline>'') w"

definition deploy ::
  "('x, 'm) StopController \<Rightarrow> DeploymentInfo \<Rightarrow> Environment \<Rightarrow> 'm \<Rightarrow> 'x world \<Rightarrow> DeployResponse option \<times> 'x world" where
  "deploy c di env m w =
     (case Deployer c di env m (ext w, response w) of
        (res, x, r) \<Rightarrow> (res, w\<lparr>ext := x, response := r, trace := trace w @ [DeployCall di env]\<rparr>))"

definition resolveAuthorization ::
  "('x, 'm) StopController \<Rightarrow> Authorization \<Rightarrow> Environment \<Rightarrow> 'x world
     \<Rightarrow> (Authorization \<times> error option) \<times> 'x world" where
  "resolveAuthorization c auth envs w =
     (let config = Config c;
          w1 = logc (Debug ''checking for basic auth'') w
      in if Authorization.Username auth = [] \<and> Authorization.Password auth = [] then
           (if Authenticate envs then ((zero_Authorization, Some BasicAuthError), w1)
            else ((auth\<lparr>Authorization.Username := Config.Username config,
                        Authorization.Password := Config.Password config\<rparr>, None), w1))
         else ((auth, None), w1))"

definition resolveEnvironment :: "('x, 'm) StopController \<Rightarrow> string \<Rightarrow> Environment \<times> error option" where
  "resolveEnvironment c env =
     (let config = Config c
      in case Environments config env of
           None \<Rightarrow> (zero_Environment, Some (EnvironmentNotFoundError env))
         | Some environment \<Rightarrow> (environment, None))"

text \<open>
  The loop of \<open>printErrors\<close> over the diagnoses found. \<open>error.Details()[0]\<close> panics on a
  diagnosis without details, after the five lines before it have been written.
\<close>

fun printErrors_loop :: "LogMatchedError list \<Rightarrow> 'x world \<Rightarrow> panic option \<times> 'x world" where
  "printErrors_loop [] w = (None, w)"
| "printErrors_loop (e # es) w =
     (let w1 = Fprintln [] w;
          w2 = Fprintln ''*******************'' w1;
          w3 = Fprintln [] w2;
          w4 = Fprintln (''The following error was found in the above logs: '' @ ErrorText e) w3;
          w5 = Fprintln [] w4
      in case Details e of
           [] \<Rightarrow> (Some IndexOutOfRange, w5)
         | d # ds \<Rightarrow>
             (let w6 = Fprintln (''Error: '' @ d) w5;
                  w7 = Fprintln [] w6;
                  w8 = Fprintln (''Potential solution: '' @ Solution e) w7;
                  w9 = Fprintln [] w8;
                  w10 = Fprintln ''*******************'' w9
              in printErrors_loop es w10))"

text \<open>
  \<open>printErrors\<close> returns the error behind the pointer it was given as it is when the
  function ends. \<open>ReadFrom\<close> empties the sink into the temporary buffer, and the next line
  writes the content back.
\<close>

definition printErrors ::
  "('x, 'm) StopController \<Rightarrow> error option \<Rightarrow> 'x world \<Rightarrow> panic option \<times> error option \<times> 'x world" where
  "printErrors c err w =
     (let tempBuffer = response w;
          w1 = w\<lparr>response := []\<rparr>;
          w2 = sink_write tempBuffer w1;
          errors = ErrorFinder c tempBuffer
      in case errors of
           [] \<Rightarrow> (None, err, w2)
         | e0 # es \<Rightarrow>
             (case printErrors_loop errors w2 of
                (pn, w3) \<Rightarrow> (pn, Some (MatchedError e0), w3)))"

text \<open>
  The two deferred functions receive a pointer to the result of \<open>StopDeployment\<close>; in
  the model they take the value behind it and return it as it is when they end.
\<close>

definition emitStopFinish ::
  "('x, 'm) StopController \<Rightarrow> CFContext \<Rightarrow> Authorization \<Rightarrow> Environment \<Rightarrow> (string \<rightharpoonup> dyn)
     \<Rightarrow> DeployResponse \<Rightarrow> 'x world \<Rightarrow> DeployResponse \<times> 'x world" where
  "emitStopFinish c cfContext auth environment data deployResponse w =
     (let event = StopFinishedEvent cfContext auth environment data;
          w1 = logc (Debugf ''emitting a %s event'' [AName event]) w
      in case emit_event (StopController.EventManager c) event w1 of
           (err, w2) \<Rightarrow> (deployResponse, w2))"

definition emitStopSuccessOrFailure ::
  "(error \<Rightarrow> string) \<Rightarrow> ('x, 'm) StopController \<Rightarrow> CFContext \<Rightarrow> Authorization \<Rightarrow> Environment
     \<Rightarrow> (string \<rightharpoonup> dyn) \<Rightarrow> DeployResponse \<Rightarrow> 'x world
     \<Rightarrow> panic option \<times> DeployResponse \<times> 'x world" where
  "emitStopSuccessOrFailure errorString c cfContext auth environment data deployResponse w =
     (case (if Error deployResponse \<noteq> None
            then (case printErrors c (Error deployResponse) w of
                    (pn, err, w1) \<Rightarrow>
                      (pn, deployResponse\<lparr>Error := err\<rparr>,
                       StopFailureEvent cfContext auth environment data err, w1))
            else (None, deployResponse,
                  StopSuccessEvent cfContext auth environment data, w)) of
        (Some pn, deployResponse1, event, w1) \<Rightarrow> (Some pn, deployResponse1, w1)
      | (None, deployResponse1, event, w1) \<Rightarrow>
          (let w2 = logc (Debugf ''emitting a %s event'' [AName event]) w1
           in case emit_event (StopController.EventManager c) event w2 of
                (Some eventErr, w3) \<Rightarrow>
                  (let w4 = logc (Errorf ''an error occurred when emitting a %s event: %s''
                                    [AName event, AErr eventErr]) w3
                   in (None, deployResponse1, Fprintln (errorString eventErr) w4))
              | (None, w3) \<Rightarrow> (None, deployResponse1, w3)))"

text \<open>
  \<open>StopDeployment\<close> has the named result \<open>deployResponse\<close>. Once the two deferred calls
  are registered, every way out of the function (a \<open>return\<close>, which first assigns the
  result, or a panic, which leaves it at its zero value) runs them, the last registered
  first, on a pointer to the result; what the caller receives is the result after them.

  \<open>StopDeployment_body\<close> is the part of the function after the two \<open>defer\<close> statements:
  it yields the panic, if any, the result as assigned, and the world.
\<close>

definition StopDeployment_body ::
  "('x, 'm) StopController \<Rightarrow> CFContext \<Rightarrow> (string \<rightharpoonup> dyn) \<Rightarrow> Environment \<Rightarrow> Authorization
     \<Rightarrow> DeploymentInfo \<Rightarrow> 'x world \<Rightarrow> panic option \<times> DeployResponse \<times> 'x world" where
  "StopDeployment_body c cf data environment auth deploymentInfo w =
     (case emit_event (StopController.EventManager c)
             (StopStartedEvent cf data environment auth) w of
        (Some err, w1) \<Rightarrow>
          (let w2 = logc (LogError err) w1;
               err1 = InitializationError err
           in (None,
               \<lparr>StatusCode = StatusInternalServerError,
                DeployResponse.DeploymentInfo = Some deploymentInfo,
                Error = Some (EventError ''StopStartedEvent'' err1)\<rparr>,
               w2))
      | (None, w1) \<Rightarrow>
          (case StopManagerFactory c deploymentInfo (ext w1) of
             (manager, x) \<Rightarrow>
               (case deploy c deploymentInfo environment manager (w1\<lparr>ext := x\<rparr>) of
                  (None, w2) \<Rightarrow> (Some NilPointerDereference, zero_DeployResponse, w2)
                | (Some res, w2) \<Rightarrow> (None, res, w2))))"

definition StopDeployment ::
  "(error \<Rightarrow> string) \<Rightarrow> ('x, 'm) StopController \<Rightarrow> Deployment \<Rightarrow> (string \<rightharpoonup> dyn) option
     \<Rightarrow> 'x world \<Rightarrow> DeployResponse outcome \<times> 'x world" where
  "StopDeployment errorString c deployment data0 w =
     (let cf = Deployment.CFContext deployment;
          w1 = logc (Debugf ''Preparing to stop %s with UUID %s''
                       [AStr (Application cf), AStr (DeploymentLogger.UUID (Log c))]) w;
          data = (case data0 of None \<Rightarrow> Map.empty | Some d \<Rightarrow> d)
      in case resolveEnvironment c (CFContext.Environment cf) of
           (environment, Some err) \<Rightarrow>
             (Returned \<lparr>StatusCode = StatusInternalServerError,
                        DeployResponse.DeploymentInfo = None, Error = Some err\<rparr>,
              Fprintln (errorString err) w1)
         | (environment, None) \<Rightarrow>
             (case resolveAuthorization c (Deployment.Authorization deployment) environment w1 of
                ((auth, Some err), w2) \<Rightarrow>
                  (Returned \<lparr>StatusCode = StatusUnauthorized,
                             DeployResponse.DeploymentInfo = None, Error = Some err\<rparr>, w2)
              | ((auth, None), w2) \<Rightarrow>
                  (let deploymentInfo =
                         \<lparr>Org = Organization cf,
                          DeploymentInfo.Space = CFContext.Space cf,
                          AppName = Application cf,
                          DeploymentInfo.Environment = CFContext.Environment cf,
                          DeploymentInfo.UUID = DeploymentLogger.UUID (Log c),
                          DeploymentInfo.Domain = Environment.Domain environment,
                          DeploymentInfo.SkipSSL = Environment.SkipSSL environment,
                          DeploymentInfo.CustomParams = Environment.CustomParams environment,
                          DeploymentInfo.Username = Authorization.Username auth,
                          DeploymentInfo.Password = Authorization.Password auth,
                          DeploymentInfo.Data = data,
                          Instances = 0,
                          DeploymentInfo.Manifest = [],
                          DeploymentInfo.HealthCheckEndpoint = []\<rparr>
                   in case StopDeployment_body c cf data environment auth deploymentInfo w2 of
                        (bodyPanic, deployResponse, w3) \<Rightarrow>
                          (case emitStopSuccessOrFailure errorString c cf auth environment data
                                  deployResponse w3 of
                             (deferPanic, deployResponse1, w4) \<Rightarrow>
                               (case emitStopFinish c cf auth environment data deployResponse1 w4 of
                                  (deployResponse2, w5) \<Rightarrow>
                                    ((case bodyPanic of
                                        Some pn \<Rightarrow> Panicked pn
                                      | None \<Rightarrow>
                                          (case deferPanic of
                                             Some pn \<Rightarrow> Panicked pn
                                           | None \<Rightarrow> Returned deployResponse2)),
                                     w5))))))"

text \<open>
  The \<open>DeploymentInfo\<close> that \<open>StopDeployment\<close> builds from the request, the environment
  and the credentials.
\<close>

definition deploymentInfo_of ::
  "('x, 'm) StopController \<Rightarrow> CFContext \<Rightarrow> (string \<rightharpoonup> dyn) \<Rightarrow> Environment \<Rightarrow> Authorization
     \<Rightarrow> DeploymentInfo" where
  "deploymentInfo_of c cf data environment auth =
     \<lparr>Org = Organization cf,
      DeploymentInfo.Space = CFContext.Space cf,
      AppName = Application cf,
      DeploymentInfo.Environment = CFContext.Environment cf,
      DeploymentInfo.UUID = DeploymentLogger.UUID (Log c),
      DeploymentInfo.Domain = Environment.Domain environment,
      DeploymentInfo.SkipSSL = Environment.SkipSSL environment,
      DeploymentInfo.CustomParams = Environment.CustomParams environment,
      DeploymentInfo.Username = Authorization.Username auth,
      DeploymentInfo.Password = Authorization.Password auth,
      DeploymentInfo.Data = data,
      Instances = 0,
      DeploymentInfo.Manifest = [],
      DeploymentInfo.HealthCheckEndpoint = []\<rparr>"

definition data_of :: "(string \<rightharpoonup> dyn) option \<Rightarrow> (string \<rightharpoonup> dyn)" where
  "data_of data0 = (case data0 of None \<Rightarrow> Map.empty | Some d \<Rightarrow> d)"

section \<open>Vocabulary of the properties\<close>

text \<open>
  The calls that a run from world \<open>w\<close> to world \<open>w'\<close> has added to
  the trace.
\<close>

definition new_actions :: "'x world \<Rightarrow> 'x world \<Rightarrow> action list" where
  "new_actions w w' = drop (length (trace w)) (trace w')"

text \<open>
  \<open>follows steps tr r\<close>: the courier calls \<open>tr\<close> are the planned \<open>steps\<close> in order, up to
  and including the first one that the courier answered with an error; the result \<open>r\<close>
  is that step's error, built from the output of the call, and no error when every step
  ran.
\<close>

fun follows :: "(courier_call \<times> (bytes \<Rightarrow> error)) list \<Rightarrow> action list \<Rightarrow> error option \<Rightarrow> bool" where
  "follows [] tr r = (tr = [] \<and> r = None)"
| "follows ((c, mk) # steps) [] r = False"
| "follows ((c, mk) # steps) (a # tr) r =
     (case a of
        CourierCall c' (Out out None) \<Rightarrow> c' = c \<and> follows steps tr r
      | CourierCall c' (Out out (Some e)) \<Rightarrow> c' = c \<and> tr = [] \<and> r = Some (mk out)
      | _ \<Rightarrow> False)"

fun is_MapRoute :: "action \<Rightarrow> bool" where
  "is_MapRoute (CourierCall (MapRouteCall a d h) r) = True"
| "is_MapRoute _ = False"

fun is_UnmapRoute :: "action \<Rightarrow> bool" where
  "is_UnmapRoute (CourierCall (UnmapRouteCall a d h) r) = True"
| "is_UnmapRoute _ = False"

text \<open>
  The temporary application name in the words of the specification:
  \<open><appName>-new-build-<UUID>\<close>.
\<close>

definition temp_name :: "DeploymentInfo \<Rightarrow> string" where
  "temp_name di = AppName di @ ''-new-build-'' @ DeploymentInfo.UUID di"

text \<open>
  What the courier of pusher \<open>p\<close> answers in world \<open>w\<close> when asked whether the original
  application exists, and the entry that this call leaves in the trace.
\<close>

definition original_exists :: "'x Pusher \<Rightarrow> 'x world \<Rightarrow> bool" where
  "original_exists p w =
     fst (Exists (Pusher.Courier p) (AppName (Pusher.DeploymentInfo p)) (ext w))"

definition exists_call :: "'x Pusher \<Rightarrow> 'x world \<Rightarrow> action" where
  "exists_call p w =
     CourierCall (ExistsCall (AppName (Pusher.DeploymentInfo p))) (Found (original_exists p w))"

text \<open>
  The plans of courier calls that \<open>Success\<close> and \<open>Undo\<close> are
  specified to follow.
\<close>

definition unmap_step :: "DeploymentInfo \<Rightarrow> courier_call \<times> (bytes \<Rightarrow> error)" where
  "unmap_step di =
     (UnmapRouteCall (AppName di) (DeploymentInfo.Domain di) (AppName di),
      UnmapRouteError (AppName di))"

definition delete_step :: "string \<Rightarrow> courier_call \<times> (bytes \<Rightarrow> error)" where
  "delete_step n = (DeleteCall n, DeleteApplicationError n)"

definition rename_step :: "DeploymentInfo \<Rightarrow> courier_call \<times> (bytes \<Rightarrow> error)" where
  "rename_step di = (RenameCall (temp_name di) (AppName di), RenameError (temp_name di))"

definition success_plan :: "DeploymentInfo \<Rightarrow> bool \<Rightarrow> (courier_call \<times> (bytes \<Rightarrow> error)) list" where
  "success_plan di found =
     (if found
      then (if DeploymentInfo.Domain di \<noteq> [] then [unmap_step di] else [])
           @ [delete_step (AppName di), rename_step di]
      else [rename_step di])"

definition rollback_plan :: "DeploymentInfo \<Rightarrow> bool \<Rightarrow> (courier_call \<times> (bytes \<Rightarrow> error)) list" where
  "rollback_plan di found =
     (if found then [delete_step (temp_name di)] else [rename_step di])"

text \<open>
  The payloads of the two events that \<open>Execute\<close> emits when the push is finished, as the
  specification describes them: they carry the temporary name.
\<close>

definition pushData_of :: "'x Pusher \<Rightarrow> PushEventData" where
  "pushData_of p = \<lparr>PushEventData.AppPath = Pusher.AppPath p,
                                   PushEventData.FoundationURL = Pusher.FoundationURL p,
                                   PushEventData.TempAppWithUUID = temp_name (Pusher.DeploymentInfo p),
                                   PushEventData.DeploymentInfo = Pusher.DeploymentInfo p\<rparr>"

definition pushFinished_of :: "'x Pusher \<Rightarrow> PushFinished" where
  "pushFinished_of p = \<lparr>PushFinished.CFContext = Pusher.CFContext p,
                                  Auth = Pusher.Auth p,
                                  PushFinished.AppPath = Pusher.AppPath p,
                                  PushFinished.FoundationURL = Pusher.FoundationURL p,
                                  PushFinished.TempAppWithUUID = temp_name (Pusher.DeploymentInfo p),
                                  PushFinished.Data = DeploymentInfo.Data (Pusher.DeploymentInfo p),
                                  PushFinished.Manifest = DeploymentInfo.Manifest (Pusher.DeploymentInfo p),
                                  PushFinished.HealthCheckEndpoint = DeploymentInfo.HealthCheckEndpoint (Pusher.DeploymentInfo p)\<rparr>"

text \<open>
  The application name that an action passes where the temporary application is meant:
  the application pushed, mapped, renamed or asked for its logs, and the name carried by
  a push-finished event.
\<close>

fun temp_slot :: "action \<Rightarrow> string option" where
  "temp_slot (CourierCall (PushCall n path h i) r) = Some n"
| "temp_slot (CourierCall (LogsCall n) r) = Some n"
| "temp_slot (CourierCall (MapRouteCall n d h) r) = Some n"
| "temp_slot (CourierCall (RenameCall n m) r) = Some n"
| "temp_slot (EmitCall (Event t d) r) = Some (PushEventData.TempAppWithUUID d)"
| "temp_slot (EmitEventCall (PushFinishedEvent e) r) = Some (PushFinished.TempAppWithUUID e)"
| "temp_slot _ = None"

text \<open>Kinds of actions of the controller.\<close>

fun is_Started :: "action \<Rightarrow> bool" where
  "is_Started (EmitEventCall (StopStartedEvent cf d e a) r) = True"
| "is_Started _ = False"

fun is_SuccessOrFailure :: "action \<Rightarrow> bool" where
  "is_SuccessOrFailure (EmitEventCall (StopSuccessEvent cf a e d) r) = True"
| "is_SuccessOrFailure (EmitEventCall (StopFailureEvent cf a e d err) r) = True"
| "is_SuccessOrFailure _ = False"

fun is_Finished :: "action \<Rightarrow> bool" where
  "is_Finished (EmitEventCall (StopFinishedEvent cf a e d) r) = True"
| "is_Finished _ = False"

fun is_Deploy :: "action \<Rightarrow> bool" where
  "is_Deploy (DeployCall di e) = True"
| "is_Deploy _ = False"

text \<open>
  The error that the classifier leaves in the response: the first diagnosis that the
  error finder finds in the transcript, when there is an error and a diagnosis.
\<close>

definition classified :: "('x, 'm) StopController \<Rightarrow> error option \<Rightarrow> string \<Rightarrow> error option" where
  "classified c err transcript =
     (case err of
        None \<Rightarrow> None
      | Some e \<Rightarrow> (case ErrorFinder c transcript of [] \<Rightarrow> Some e | e0 # es \<Rightarrow> Some (MatchedError e0)))"

fun lacks_details :: "LogMatchedError list \<Rightarrow> bool" where
  "lacks_details [] = False"
| "lacks_details (e # es) = (Details e = [] \<or> lacks_details es)"

text \<open>
  The error of a failed start as claim C1 words it: an \<open>InitializationError\<close> wrapping an
  \<open>EventError\<close> of type \<open>StopStartedEvent\<close>.
\<close>

fun initialization_wrapping_event :: "error \<Rightarrow> bool" where
  "initialization_wrapping_event (InitializationError (EventError t e)) = (t = ''StopStartedEvent'')"
| "initialization_wrapping_event _ = False"

text \<open>
  An event manager that behaves as \<open>em\<close> does, but reports no error from the subscribers
  of the success, failure and finished events.
\<close>

fun is_envelope_end :: "event \<Rightarrow> bool" where
  "is_envelope_end (StopSuccessEvent cf a e d) = True"
| "is_envelope_end (StopFailureEvent cf a e d err) = True"
| "is_envelope_end (StopFinishedEvent cf a e d) = True"
| "is_envelope_end _ = False"

definition mute :: "'x EventManager \<Rightarrow> 'x EventManager" where
  "mute em =
     em\<lparr>EmitEvent := (\<lambda>e s. if is_envelope_end e then (None, snd (EmitEvent em e s))
                              else EmitEvent em e s)\<rparr>"

text \<open>
  What claim C10 says of an emission error \<open>e\<close> of event \<open>ev\<close> between two worlds: it is
  logged and it is written to the response sink.
\<close>

definition logged_and_written :: "(error \<Rightarrow> string) \<Rightarrow> event \<Rightarrow> error \<Rightarrow> 'x world \<Rightarrow> 'x world \<Rightarrow> bool" where
  "logged_and_written errorString ev e w w' =
     (Errorf ''an error occurred when emitting a %s event: %s'' [AName ev, AErr e]
        \<in> set (drop (length (logs w)) (logs w')) \<and>
      drop (length (response w') - length (errorString e @ ''\<newline>'')) (response w')
        = errorString e @ ''\<newline>'')"

text \<open>
  What claim C1 says of the result of a call whose started event failed: status 500 and
  an error of the shape above.
\<close>

fun claimed_failed_start :: "DeployResponse outcome \<Rightarrow> bool" where
  "claimed_failed_start (Returned r) =
     (StatusCode r = 500 \<and>
      (case Error r of Some e \<Rightarrow> initialization_wrapping_event e | None \<Rightarrow> False))"
| "claimed_failed_start (Panicked pn) = False"

section \<open>Concrete collaborators\<close>

text \<open>
  A simulated foundation for running the model on concrete inputs: the outside state is
  the list of applications that exist, and the courier commands act on it.
\<close>

definition sim_courier :: "string list Courier" where
  "sim_courier =
     \<lparr>Login = (\<lambda>url user pass org space skip apps. ((''logged in'', None), apps)),
      Push = (\<lambda>n path host inst apps. ((''pushed'', None), n # apps)),
      Rename = (\<lambda>a b apps. ((''renamed'', None), map (\<lambda>x. if x = a then b else x) apps)),
      Delete = (\<lambda>n apps. ((''deleted'', None), removeAll n apps)),
      MapRoute = (\<lambda>a d h apps. ((''mapped'', None), apps)),
      UnmapRoute = (\<lambda>a d h apps. ((''unmapped'', None), apps)),
      Exists = (\<lambda>n apps. (List.member apps n, apps)),
      Logs = (\<lambda>n apps. ((''application logs'', None), apps)),
      CleanUp = (\<lambda>apps. (None, apps))\<rparr>"

definition failing_push_courier :: "string list Courier" where
  "failing_push_courier =
     sim_courier\<lparr>Push := (\<lambda>n path host inst apps.
                    ((''push failed'', Some (ExternalError ''exit status 1'')), apps))\<rparr>"

text \<open>
  An event manager whose subscribers fail on the events that \<open>bad\<close> selects.
\<close>

definition events_failing :: "(event \<Rightarrow> bool) \<Rightarrow> 'x EventManager" where
  "events_failing bad =
     \<lparr>Emit = (\<lambda>e s. (None, s)),
      EmitEvent = (\<lambda>e s. (if bad e then Some (ExternalError ''subscriber failed'') else None, s))\<rparr>"

fun no_event :: "event \<Rightarrow> bool" where
  "no_event e = False"

fun is_StopStarted :: "event \<Rightarrow> bool" where
  "is_StopStarted (StopStartedEvent cf d e a) = True"
| "is_StopStarted _ = False"

fun is_StopSuccess :: "event \<Rightarrow> bool" where
  "is_StopSuccess (StopSuccessEvent cf a e d) = True"
| "is_StopSuccess _ = False"

fun is_StopFinished :: "event \<Rightarrow> bool" where
  "is_StopFinished (StopFinishedEvent cf a e d) = True"
| "is_StopFinished _ = False"

fun error_text :: "error \<Rightarrow> string" where
  "error_text (ExternalError s) = s"
| "error_text _ = ''error''"

definition cf0 :: CFContext where
  "cf0 = \<lparr>CFContext.Environment = ''prod'', Organization = ''org'',
          CFContext.Space = ''space'', Application = ''app''\<rparr>"

definition env0 :: Environment where
  "env0 = \<lparr>Name = ''prod'', Environment.Domain = ''example.com'', Foundations = [''api.f1''],
           Authenticate = False, Environment.SkipSSL = False, EnableRollback = True,
           Environment.CustomParams = Map.empty\<rparr>"

definition config0 :: Config where
  "config0 = \<lparr>Config.Username = ''admin'', Config.Password = ''secret'',
              Environments = [''prod'' \<mapsto> env0, ''secure'' \<mapsto> env0\<lparr>Authenticate := True\<rparr>]\<rparr>"

definition auth0 :: Authorization where
  "auth0 = \<lparr>Authorization.Username = ''bob'', Authorization.Password = ''pw''\<rparr>"

definition di0 :: DeploymentInfo where
  "di0 = \<lparr>Org = ''org'', DeploymentInfo.Space = ''space'', AppName = ''app'',
          DeploymentInfo.Environment = ''prod'', DeploymentInfo.UUID = ''u1'',
          DeploymentInfo.Domain = ''example.com'', DeploymentInfo.SkipSSL = False,
          DeploymentInfo.CustomParams = Map.empty, DeploymentInfo.Username = ''bob'',
          DeploymentInfo.Password = ''pw'', DeploymentInfo.Data = Map.empty, Instances = 2,
          DeploymentInfo.Manifest = [], DeploymentInfo.HealthCheckEndpoint = []\<rparr>"

definition pusher0 :: "string list Pusher" where
  "pusher0 = \<lparr>Courier = sim_courier, Pusher.DeploymentInfo = di0,
              Pusher.EventManager = events_failing no_event,
              Pusher.FoundationURL = ''api.f1'', Pusher.AppPath = ''/tmp/app'',
              Pusher.Environment = env0, Pusher.CFContext = cf0, Pusher.Auth = auth0\<rparr>"

definition world0 :: "'x \<Rightarrow> 'x world" where
  "world0 x = \<lparr>ext = x, response = [], trace = [], logs = []\<rparr>"

definition controller0 :: "(event \<Rightarrow> bool) \<Rightarrow> (unit, unit) StopController" where
  "controller0 bad =
     \<lparr>Deployer = (\<lambda>di env m (x, r).
         (Some \<lparr>StatusCode = 200, DeployResponse.DeploymentInfo = Some di, Error = None\<rparr>,
          x, r @ ''stopped'')),
      Log = \<lparr>DeploymentLogger.UUID = ''u1''\<rparr>,
      StopManagerFactory = (\<lambda>di x. ((), x)),
      Config = config0,
      StopController.EventManager = events_failing bad,
      ErrorFinder = (\<lambda>transcript. [])\<rparr>"

definition diagnosis0 :: LogMatchedError where
  "diagnosis0 = \<lparr>ErrorText = ''quota exceeded'', Details = [''memory quota exceeded''],
                  Solution = ''free some memory''\<rparr>"

definition deployment0 :: "string \<Rightarrow> Authorization \<Rightarrow> Deployment" where
  "deployment0 environment auth =
     \<lparr>Deployment.CFContext = cf0\<lparr>CFContext.Environment := environment\<rparr>,
      Deployment.Authorization = auth\<rparr>"

section \<open>Properties of the pusher\<close>

text \<open>The definitions that evaluating the model on a concrete input unfolds.\<close>

lemmas fixture_defs = sim_courier_def failing_push_courier_def events_failing_def cf0_def env0_def
  config0_def auth0_def di0_def pusher0_def world0_def controller0_def deployment0_def
  diagnosis0_def

lemmas run_defs = courier_out_def courier_exists_def courier_cleanup_def emit_legacy_def
  emit_event_def logc_def sink_write_def Fprintln_def deploy_def Let_def new_actions_def
  original_exists_def exists_call_def

lemmas pusher_run_defs = Verify_def Initially_def Execute_def Success_def Undo_def Finally_def
  pushApplication_def mapTempAppToLoadBalancedDomain_def unMapLoadBalancedRoute_def
  deleteApplication_def renameNewBuildToOriginalAppName_def TemporaryNameSuffix_def

lemmas controller_run_defs = StopDeployment_def StopDeployment_body_def resolveEnvironment_def
  resolveAuthorization_def emitStopSuccessOrFailure_def emitStopFinish_def printErrors_def
  StatusInternalServerError_def StatusUnauthorized_def data_of_def deploymentInfo_of_def

lemmas plan_defs = success_plan_def rollback_plan_def unmap_step_def delete_step_def rename_step_def

lemma courier_out_split:
  "courier_out c f w = (r, w') \<Longrightarrow>
     \<exists>out err. r = (out, err) \<and> trace w' = trace w @ [CourierCall c (Out out err)] \<and> logs w' = logs w \<and> response w' = response w"
  by (auto simp: courier_out_def split: prod.splits)

lemma courier_exists_split:
  "courier_exists n f w = (b, w') \<Longrightarrow>
     b = fst (f (ext w)) \<and> trace w' = trace w @ [CourierCall (ExistsCall n) (Found b)]"
  by (auto simp: courier_exists_def split: prod.splits)

lemma logc_trace [simp]: "trace (logc l w) = trace w" "ext (logc l w) = ext w" "response (logc l w) = response w"
  by (simp_all add: logc_def)

lemma sink_write_trace [simp]: "trace (sink_write b w) = trace w" "ext (sink_write b w) = ext w"
  by (simp_all add: sink_write_def)

lemma deleteApplication_step:
  "deleteApplication p n w = (r, w') \<Longrightarrow>
     \<exists>out err. trace w' = trace w @ [CourierCall (DeleteCall n) (Out out err)] \<and>
       r = map_option (\<lambda>e. DeleteApplicationError n out) err"
  by (auto simp: deleteApplication_def Let_def split: prod.splits option.splits dest!: courier_out_split)

lemma renameNewBuild_step:
  "renameNewBuildToOriginalAppName p w = (r, w') \<Longrightarrow>
     \<exists>out err. trace w' = trace w @ [CourierCall (RenameCall (temp_name (Pusher.DeploymentInfo p)) (AppName (Pusher.DeploymentInfo p))) (Out out err)] \<and>
       r = map_option (\<lambda>e. RenameError (temp_name (Pusher.DeploymentInfo p)) out) err"
  by (auto simp: renameNewBuildToOriginalAppName_def temp_name_def TemporaryNameSuffix_def Let_def split: prod.splits option.splits dest!: courier_out_split)

lemma unMapLoadBalancedRoute_step:
  "unMapLoadBalancedRoute p w = (r, w') \<Longrightarrow>
     (if DeploymentInfo.Domain (Pusher.DeploymentInfo p) \<noteq> [] then
     (\<exists>out err. trace w' = trace w @ [CourierCall (UnmapRouteCall (AppName (Pusher.DeploymentInfo p)) (DeploymentInfo.Domain (Pusher.DeploymentInfo p)) (AppName (Pusher.DeploymentInfo p))) (Out out err)] \<and>
       r = map_option (\<lambda>e. UnmapRouteError (AppName (Pusher.DeploymentInfo p)) out) err)
     else r = None \<and> w' = w)"
  by (auto simp: unMapLoadBalancedRoute_def Let_def split: prod.splits option.splits if_splits dest!: courier_out_split)

lemma follows_one:
  "follows [(c, mk)] [CourierCall c (Out out err)] (map_option (\<lambda>e. mk out) err)"
  by (cases err) auto


subsection \<open>Push output and application logs\<close>

text \<open>
  Claim C7. Every push attempt writes the output of the courier's \<open>Push\<close> to the response
  sink, also when \<open>Push\<close> returns an error. On a push error the application logs are
  fetched with \<open>Logs\<close> and written after the push output, and the error returned is a
  \<open>PushError\<close>, or a \<open>CloudFoundryGetLogsError\<close> carrying the push error and the logs
  error when fetching the logs fails too.
\<close>

theorem pushApplication_output:
  "case Push (Pusher.Courier p) appName appPath (AppName (Pusher.DeploymentInfo p))
          (Instances (Pusher.DeploymentInfo p)) (ext w) of
     ((pushOutput, None), x) \<Rightarrow>
        fst (pushApplication p appName appPath w) = None \<and>
        response (snd (pushApplication p appName appPath w)) = response w @ pushOutput \<and>
        new_actions w (snd (pushApplication p appName appPath w))
          = [CourierCall (PushCall appName appPath (AppName (Pusher.DeploymentInfo p))
                            (Instances (Pusher.DeploymentInfo p))) (Out pushOutput None)]
   | ((pushOutput, Some e), x) \<Rightarrow>
       (case Logs (Pusher.Courier p) appName x of
          ((cloudFoundryLogs, logsErr), x') \<Rightarrow>
            response (snd (pushApplication p appName appPath w))
              = response w @ pushOutput @ cloudFoundryLogs \<and>
            fst (pushApplication p appName appPath w)
              = Some (case logsErr of None \<Rightarrow> PushError
                      | Some le \<Rightarrow> CloudFoundryGetLogsError e le) \<and>
            new_actions w (snd (pushApplication p appName appPath w))
              = [CourierCall (PushCall appName appPath (AppName (Pusher.DeploymentInfo p))
                                (Instances (Pusher.DeploymentInfo p))) (Out pushOutput (Some e)),
                 CourierCall (LogsCall appName) (Out cloudFoundryLogs logsErr)])"
  by (auto simp: pushApplication_def courier_out_def logc_def sink_write_def new_actions_def Let_def
           split: prod.splits option.splits)

text \<open>A failed push on the simulated foundation: the push output, then the logs.\<close>

theorem pushApplication_output_witness:
  "pushApplication (pusher0\<lparr>Courier := failing_push_courier\<rparr>) ''app-new-build-u1'' ''/tmp/app''
      (world0 [''app'']) =
     (Some PushError,
      \<lparr>ext = [''app''], response = ''push failedapplication logs'',
       trace = [CourierCall (PushCall ''app-new-build-u1'' ''/tmp/app'' ''app'' 2)
                  (Out ''push failed'' (Some (ExternalError ''exit status 1''))),
                CourierCall (LogsCall ''app-new-build-u1'') (Out ''application logs'' None)],
       logs = [Debugf ''pushing app %s to %s'' [AStr ''app-new-build-u1'', AStr ''example.com''],
               Debugf ''tempdir for app %s: %s'' [AStr ''app-new-build-u1'', AStr ''/tmp/app''],
               Infof ''output from Cloud Foundry: \<newline>%s'' [AStr ''push failed''],
               Errorf ''logs from %s: \<newline>%s''
                 [AStr ''app-new-build-u1'', AStr ''application logs'']]\<rparr>)"
  using pushApplication_output [where p = "pusher0\<lparr>Courier := failing_push_courier\<rparr>"
          and appName = "''app-new-build-u1''" and appPath = "''/tmp/app''" and w = "world0 [''app'']"]
  by (simp add: fixture_defs run_defs pusher_run_defs)

subsection \<open>Commit and rollback\<close>

lemma Success_follows:
  "case Success p w of
     (r, w') \<Rightarrow>
       (\<exists>tr. trace w' = trace w @
                CourierCall (ExistsCall (AppName (Pusher.DeploymentInfo p)))
                  (Found (fst (Exists (Pusher.Courier p) (AppName (Pusher.DeploymentInfo p)) (ext w)))) # tr \<and>
          follows
            (success_plan (Pusher.DeploymentInfo p)
               (fst (Exists (Pusher.Courier p) (AppName (Pusher.DeploymentInfo p)) (ext w))))
            tr r)"
proof -
  let ?di = "Pusher.DeploymentInfo p"
  obtain b w1 where ex: "courier_exists (AppName ?di) (Exists (Pusher.Courier p) (AppName ?di)) w = (b, w1)"
    by fastforce
  from courier_exists_split [OF ex]
  have b: "b = fst (Exists (Pusher.Courier p) (AppName ?di) (ext w))"
    and t1: "trace w1 = trace w @ [CourierCall (ExistsCall (AppName ?di)) (Found b)]"
    by simp_all
  show ?thesis
  proof (cases b)
    case False
    obtain r w' where rn: "renameNewBuildToOriginalAppName p w1 = (r, w')" by fastforce
    have s: "Success p w = (r, w')"
      using ex False rn by (simp add: Success_def)
    from renameNewBuild_step [OF rn] t1 False b show ?thesis
      unfolding s by (auto simp: success_plan_def rename_step_def intro: follows_one)
  next
    case True
    obtain r2 w2 where um: "unMapLoadBalancedRoute p w1 = (r2, w2)" by fastforce
    obtain r3 w3 where dl: "deleteApplication p (AppName ?di) w2 = (r3, w3)" by fastforce
    obtain r4 w4 where rn: "renameNewBuildToOriginalAppName p w3 = (r4, w4)" by fastforce
    have s: "Success p w = (case r2 of Some e \<Rightarrow> (Some e, w2)
               | None \<Rightarrow> (case r3 of Some e \<Rightarrow> (Some e, w3) | None \<Rightarrow> (r4, w4)))"
      using ex True um dl rn by (simp add: Success_def split: option.splits)
    from deleteApplication_step [OF dl] obtain o3 e3 where
      t3: "trace w3 = trace w2 @ [CourierCall (DeleteCall (AppName ?di)) (Out o3 e3)]"
      and r3: "r3 = map_option (\<lambda>e. DeleteApplicationError (AppName ?di) o3) e3" by blast
    from renameNewBuild_step [OF rn] obtain o4 e4 where
      t4: "trace w4 = trace w3 @ [CourierCall (RenameCall (temp_name ?di) (AppName ?di)) (Out o4 e4)]"
      and r4: "r4 = map_option (\<lambda>e. RenameError (temp_name ?di) o4) e4" by blast
    have tail: "case (case r3 of Some e \<Rightarrow> (Some e, w3) | None \<Rightarrow> (r4, w4)) of
       (r, w') \<Rightarrow> \<exists>tr. trace w' = trace w2 @ tr \<and>
           follows [delete_step (AppName ?di), rename_step ?di] tr r"
      using t3 r3 t4 r4
      by (cases e3; cases e4) (auto simp: delete_step_def rename_step_def)
    show ?thesis
    proof (cases "DeploymentInfo.Domain ?di = []")
      case True
      with unMapLoadBalancedRoute_step [OF um] have "r2 = None" "w2 = w1" by simp_all
      with tail t1 b \<open>b\<close> True show ?thesis
        unfolding s by (auto simp: success_plan_def split: option.splits prod.splits)
    next
      case False
      with unMapLoadBalancedRoute_step [OF um] obtain o2 e2 where
        t2: "trace w2 = trace w1 @ [CourierCall (UnmapRouteCall (AppName ?di) (DeploymentInfo.Domain ?di) (AppName ?di)) (Out o2 e2)]"
        and r2: "r2 = map_option (\<lambda>e. UnmapRouteError (AppName ?di) o2) e2" by auto
      show ?thesis
      proof (cases e2)
        case None
        with tail t1 t2 r2 b \<open>b\<close> False show ?thesis
          unfolding s by (auto simp: success_plan_def unmap_step_def split: option.splits prod.splits)
      next
        case (Some e)
        with t1 t2 r2 b \<open>b\<close> False show ?thesis
          unfolding s by (auto simp: success_plan_def unmap_step_def)
      qed
    qed
  qed
qed

text \<open>
  Claim C4. \<open>Success\<close> asks the courier whether an application with the original name
  exists. If it does, it unmaps the load-balanced route (only when a domain is
  configured), then deletes the original application, then renames the temporary
  application to the original name; if it does not, it only renames. The error of a
  step is returned and the steps after it do not run.
\<close>

theorem Success_steps:
  "case Success p w of
     (r, w') \<Rightarrow>
       (\<exists>tr. trace w' = trace w @ exists_call p w # tr \<and>
             follows (success_plan (Pusher.DeploymentInfo p) (original_exists p w)) tr r)"
  unfolding exists_call_def original_exists_def by (rule Success_follows)

text \<open>A commit over an existing application with a domain, and a first deployment.\<close>

theorem Success_steps_witness:
  "Success pusher0 (world0 [''app'', ''app-new-build-u1'']) =
     (None,
      \<lparr>ext = [''app''], response = [],
       trace = [CourierCall (ExistsCall ''app'') (Found True),
                CourierCall (UnmapRouteCall ''app'' ''example.com'' ''app'') (Out ''unmapped'' None),
                CourierCall (DeleteCall ''app'') (Out ''deleted'' None),
                CourierCall (RenameCall ''app-new-build-u1'' ''app'') (Out ''renamed'' None)],
       logs = [Debugf ''unmapping route %s'' [AStr ''app''],
               Infof ''unmapped route %s'' [AStr ''app''],
               Debugf ''deleting %s'' [AStr ''app''],
               Infof ''deleted %s'' [AStr ''app''],
               Debugf ''renaming %s to %s'' [AStr ''app-new-build-u1'', AStr ''app''],
               Infof ''renamed %s to %s'' [AStr ''app-new-build-u1'', AStr ''app'']]\<rparr>) \<and>
   new_actions (world0 [''app-new-build-u1'']) (snd (Success pusher0 (world0 [''app-new-build-u1'']))) =
     [CourierCall (ExistsCall ''app'') (Found False),
      CourierCall (RenameCall ''app-new-build-u1'' ''app'') (Out ''renamed'' None)]"
  using Success_steps [where p = pusher0 and w = "world0 [''app'', ''app-new-build-u1'']"]
    Success_steps [where p = pusher0 and w = "world0 [''app-new-build-u1'']"]
  by (simp add: fixture_defs run_defs pusher_run_defs)

lemma Undo_disabled:
  "\<not> EnableRollback (Pusher.Environment p) \<Longrightarrow>
     Undo p w = Success p
       (logc (Errorf ''Failed to deploy, deployment not rolled back due to EnableRollback=false'' []) w)"
  by (simp add: Undo_def)

lemma Undo_follows:
  assumes en: "EnableRollback (Pusher.Environment p)"
  shows "case Undo p w of
     (r, w') \<Rightarrow>
       (\<exists>tr. trace w' = trace w @
                CourierCall (ExistsCall (AppName (Pusher.DeploymentInfo p)))
                  (Found (fst (Exists (Pusher.Courier p) (AppName (Pusher.DeploymentInfo p)) (ext w)))) # tr \<and>
          follows
            (rollback_plan (Pusher.DeploymentInfo p)
               (fst (Exists (Pusher.Courier p) (AppName (Pusher.DeploymentInfo p)) (ext w))))
            tr r)"
proof -
  let ?di = "Pusher.DeploymentInfo p"
  obtain b w1 where ex: "courier_exists (AppName ?di) (Exists (Pusher.Courier p) (AppName ?di)) w = (b, w1)"
    by fastforce
  from courier_exists_split [OF ex]
  have b: "b = fst (Exists (Pusher.Courier p) (AppName ?di) (ext w))"
    and t1: "trace w1 = trace w @ [CourierCall (ExistsCall (AppName ?di)) (Found b)]"
    by simp_all
  show ?thesis
  proof (cases b)
    case False
    obtain r w' where rn: "renameNewBuildToOriginalAppName p
        (logc (Errorf ''app %s did not previously exist: not rolling back'' [AStr (AppName ?di)]) w1) = (r, w')"
      by fastforce
    have s: "Undo p w = (r, w')"
      using en ex False rn by (simp add: Undo_def)
    from renameNewBuild_step [OF rn] t1 False b show ?thesis
      unfolding s by (auto simp: rollback_plan_def rename_step_def intro: follows_one)
  next
    case True
    obtain r w' where dl: "deleteApplication p (temp_name ?di)
        (logc (Errorf ''rolling back deploy of %s'' [AStr (temp_name ?di)]) w1) = (r, w')"
      by fastforce
    have s: "Undo p w = (r, w')"
      using en ex True dl by (simp add: Undo_def temp_name_def TemporaryNameSuffix_def)
    from deleteApplication_step [OF dl] t1 True b show ?thesis
      unfolding s by (auto simp: rollback_plan_def delete_step_def intro: follows_one)
  qed
qed

lemma follows_calls:
  "follows steps tr r \<Longrightarrow> a \<in> set tr \<Longrightarrow> \<exists>c rep. a = CourierCall c rep \<and> c \<in> fst ` set steps"
proof (induction steps arbitrary: tr)
  case Nil
  then show ?case by simp
next
  case (Cons s steps)
  obtain c mk where s: "s = (c, mk)" by (cases s)
  from Cons.prems obtain a' tr' where tr: "tr = a' # tr'" by (cases tr) auto
  show ?case
  proof (cases "a = a'")
    case True
    with Cons.prems(1) show ?thesis
      unfolding s tr by (auto split: action.splits reply.splits option.splits)
  next
    case False
    with Cons.prems tr have in_tl: "a \<in> set tr'" by simp
    with Cons.prems(1) have "follows steps tr' r"
      unfolding s tr by (auto split: action.splits reply.splits option.splits)
    from Cons.IH [OF this in_tl] show ?thesis by auto
  qed
qed

lemma new_actions_append: "trace w' = trace w @ tr \<Longrightarrow> new_actions w w' = tr"
  by (simp add: new_actions_def)

lemma temp_name_neq: "temp_name di \<noteq> AppName di"
  by (simp add: temp_name_def)

lemma Success_calls:
  assumes "a \<in> set (new_actions w (snd (Success p w)))"
  shows "\<exists>c rep. a = CourierCall c rep \<and>
           (c = ExistsCall (AppName (Pusher.DeploymentInfo p)) \<or>
            (c = UnmapRouteCall (AppName (Pusher.DeploymentInfo p))
                   (DeploymentInfo.Domain (Pusher.DeploymentInfo p)) (AppName (Pusher.DeploymentInfo p))
               \<and> DeploymentInfo.Domain (Pusher.DeploymentInfo p) \<noteq> []) \<or>
            c = DeleteCall (AppName (Pusher.DeploymentInfo p)) \<or>
            c = RenameCall (temp_name (Pusher.DeploymentInfo p)) (AppName (Pusher.DeploymentInfo p)))"
proof -
  obtain r w' where s: "Success p w = (r, w')" by fastforce
  from Success_follows [where p = p and w = w] s obtain tr where
    t: "trace w' = trace w @ CourierCall (ExistsCall (AppName (Pusher.DeploymentInfo p)))
                  (Found (fst (Exists (Pusher.Courier p) (AppName (Pusher.DeploymentInfo p)) (ext w)))) # tr"
    and f: "follows (success_plan (Pusher.DeploymentInfo p)
               (fst (Exists (Pusher.Courier p) (AppName (Pusher.DeploymentInfo p)) (ext w)))) tr r"
    by auto
  from assms s new_actions_append [OF t] have
    "a = CourierCall (ExistsCall (AppName (Pusher.DeploymentInfo p)))
                  (Found (fst (Exists (Pusher.Courier p) (AppName (Pusher.DeploymentInfo p)) (ext w))))
     \<or> a \<in> set tr" by auto
  then show ?thesis
  proof
    assume "a \<in> set tr"
    from follows_calls [OF f this] show ?thesis
      by (auto simp: plan_defs split: if_splits)
  qed simp
qed

lemma Undo_calls:
  assumes en: "EnableRollback (Pusher.Environment p)"
    and a: "a \<in> set (new_actions w (snd (Undo p w)))"
  shows "\<exists>c rep. a = CourierCall c rep \<and>
           (c = ExistsCall (AppName (Pusher.DeploymentInfo p)) \<or>
            c = DeleteCall (temp_name (Pusher.DeploymentInfo p)) \<or>
            c = RenameCall (temp_name (Pusher.DeploymentInfo p)) (AppName (Pusher.DeploymentInfo p)))"
proof -
  obtain r w' where s: "Undo p w = (r, w')" by fastforce
  from Undo_follows [OF en, where w = w] s obtain tr where
    t: "trace w' = trace w @ CourierCall (ExistsCall (AppName (Pusher.DeploymentInfo p)))
                  (Found (fst (Exists (Pusher.Courier p) (AppName (Pusher.DeploymentInfo p)) (ext w)))) # tr"
    and f: "follows (rollback_plan (Pusher.DeploymentInfo p)
               (fst (Exists (Pusher.Courier p) (AppName (Pusher.DeploymentInfo p)) (ext w)))) tr r"
    by auto
  from a s new_actions_append [OF t] have
    "a = CourierCall (ExistsCall (AppName (Pusher.DeploymentInfo p)))
                  (Found (fst (Exists (Pusher.Courier p) (AppName (Pusher.DeploymentInfo p)) (ext w))))
     \<or> a \<in> set tr" by auto
  then show ?thesis
  proof
    assume "a \<in> set tr"
    from follows_calls [OF f this] show ?thesis
      by (auto simp: plan_defs split: if_splits)
  qed simp
qed

text \<open>
  Claim C3. With \<open>EnableRollback\<close> false, \<open>Undo\<close> is the \<open>Success\<close> path (after one log
  line) and never deletes the temporary application. Otherwise, if an application with
  the original name exists, it deletes the temporary application and makes no call on
  the original; if none exists, it renames the temporary application to the original
  name.
\<close>

theorem Undo_policy:
  "(\<not> EnableRollback (Pusher.Environment p) \<longrightarrow>
      Undo p w = Success p
        (logc (Errorf ''Failed to deploy, deployment not rolled back due to EnableRollback=false''
                 []) w) \<and>
      (\<forall>rep. CourierCall (DeleteCall (temp_name (Pusher.DeploymentInfo p))) rep
          \<notin> set (new_actions w (snd (Undo p w))))) \<and>
   (EnableRollback (Pusher.Environment p) \<longrightarrow>
      (case Undo p w of
         (r, w') \<Rightarrow>
           (\<exists>tr. trace w' = trace w @ exists_call p w # tr \<and>
                 follows (rollback_plan (Pusher.DeploymentInfo p) (original_exists p w)) tr r)))"
  unfolding exists_call_def original_exists_def
proof (intro conjI impI allI)
  assume dis: "\<not> EnableRollback (Pusher.Environment p)"
  show "Undo p w = Success p
        (logc (Errorf ''Failed to deploy, deployment not rolled back due to EnableRollback=false'' []) w)"
    by (rule Undo_disabled [OF dis])
  fix rep
  let ?w0 = "logc (Errorf ''Failed to deploy, deployment not rolled back due to EnableRollback=false'' []) w"
  have n: "new_actions w (snd (Undo p w)) = new_actions ?w0 (snd (Success p ?w0))"
    by (simp add: Undo_disabled [OF dis] new_actions_def)
  show "CourierCall (DeleteCall (temp_name (Pusher.DeploymentInfo p))) rep
          \<notin> set (new_actions w (snd (Undo p w)))"
  proof
    assume "CourierCall (DeleteCall (temp_name (Pusher.DeploymentInfo p))) rep
          \<in> set (new_actions w (snd (Undo p w)))"
    then have "CourierCall (DeleteCall (temp_name (Pusher.DeploymentInfo p))) rep
          \<in> set (new_actions ?w0 (snd (Success p ?w0)))" by (simp only: n)
    from Success_calls [OF this] show False
      by (auto simp: temp_name_neq)
  qed
next
  assume "EnableRollback (Pusher.Environment p)"
  then show "case Undo p w of
         (r, w') \<Rightarrow>
           (\<exists>tr. trace w' = trace w @
                CourierCall (ExistsCall (AppName (Pusher.DeploymentInfo p)))
                  (Found (fst (Exists (Pusher.Courier p) (AppName (Pusher.DeploymentInfo p)) (ext w)))) # tr \<and>
              follows
                (rollback_plan (Pusher.DeploymentInfo p)
                   (fst (Exists (Pusher.Courier p) (AppName (Pusher.DeploymentInfo p)) (ext w))))
                tr r)"
    by (rule Undo_follows)
qed

text \<open>
  The three cases on the simulated foundation: rollback disabled, rollback over an
  existing application, rollback of a first deployment.
\<close>

theorem Undo_policy_witness:
  "\<not> EnableRollback (Pusher.Environment (pusher0\<lparr>Pusher.Environment := env0\<lparr>EnableRollback := False\<rparr>\<rparr>)) \<and>
   new_actions (world0 [''app'', ''app-new-build-u1''])
     (snd (Undo (pusher0\<lparr>Pusher.Environment := env0\<lparr>EnableRollback := False\<rparr>\<rparr>)
             (world0 [''app'', ''app-new-build-u1''])))
     = [CourierCall (ExistsCall ''app'') (Found True),
        CourierCall (UnmapRouteCall ''app'' ''example.com'' ''app'') (Out ''unmapped'' None),
        CourierCall (DeleteCall ''app'') (Out ''deleted'' None),
        CourierCall (RenameCall ''app-new-build-u1'' ''app'') (Out ''renamed'' None)] \<and>
   EnableRollback (Pusher.Environment pusher0) \<and>
   Undo pusher0 (world0 [''app'', ''app-new-build-u1'']) =
     (None,
      \<lparr>ext = [''app''], response = [],
       trace = [CourierCall (ExistsCall ''app'') (Found True),
                CourierCall (DeleteCall ''app-new-build-u1'') (Out ''deleted'' None)],
       logs = [Errorf ''rolling back deploy of %s'' [AStr ''app-new-build-u1''],
               Debugf ''deleting %s'' [AStr ''app-new-build-u1''],
               Infof ''deleted %s'' [AStr ''app-new-build-u1'']]\<rparr>) \<and>
   Undo pusher0 (world0 [''app-new-build-u1'']) =
     (None,
      \<lparr>ext = [''app''], response = [],
       trace = [CourierCall (ExistsCall ''app'') (Found False),
                CourierCall (RenameCall ''app-new-build-u1'' ''app'') (Out ''renamed'' None)],
       logs = [Errorf ''app %s did not previously exist: not rolling back'' [AStr ''app''],
               Debugf ''renaming %s to %s'' [AStr ''app-new-build-u1'', AStr ''app''],
               Infof ''renamed %s to %s'' [AStr ''app-new-build-u1'', AStr ''app'']]\<rparr>)"
  using Undo_policy [where p = "pusher0\<lparr>Pusher.Environment := env0\<lparr>EnableRollback := False\<rparr>\<rparr>"
                        and w = "world0 [''app'', ''app-new-build-u1'']"]
    Undo_policy [where p = pusher0 and w = "world0 [''app'', ''app-new-build-u1'']"]
    Undo_policy [where p = pusher0 and w = "world0 [''app-new-build-u1'']"]
  by (simp add: fixture_defs run_defs pusher_run_defs)

subsection \<open>Execute\<close>

lemma emit_legacy_split:
  "emit_legacy em e w = (r, w') \<Longrightarrow> trace w' = trace w @ [EmitCall e r]"
  by (auto simp: emit_legacy_def split: prod.splits)

lemma emit_event_split:
  "emit_event em e w = (r, w') \<Longrightarrow> trace w' = trace w @ [EmitEventCall e r]"
  by (auto simp: emit_event_def split: prod.splits)

lemma pushApplication_step:
  "pushApplication p n path w = (r, w') \<Longrightarrow>
     \<exists>out. (r = None \<and> trace w' = trace w @
                [CourierCall (PushCall n path (AppName (Pusher.DeploymentInfo p))
                   (Instances (Pusher.DeploymentInfo p))) (Out out None)]) \<or>
           (\<exists>e l le. r \<noteq> None \<and> trace w' = trace w @
                [CourierCall (PushCall n path (AppName (Pusher.DeploymentInfo p))
                   (Instances (Pusher.DeploymentInfo p))) (Out out (Some e)),
                 CourierCall (LogsCall n) (Out l le)])"
  by (auto simp: pushApplication_def Let_def split: prod.splits option.splits dest!: courier_out_split)

lemma mapTemp_step:
  "mapTempAppToLoadBalancedDomain p n w = (r, w') \<Longrightarrow>
     \<exists>out err. trace w' = trace w @
        [CourierCall (MapRouteCall n (DeploymentInfo.Domain (Pusher.DeploymentInfo p))
           (AppName (Pusher.DeploymentInfo p))) (Out out err)] \<and>
        r = map_option (\<lambda>e. MapRouteError out) err"
  by (auto simp: mapTempAppToLoadBalancedDomain_def Let_def split: prod.splits option.splits
           dest!: courier_out_split)

lemma Execute_shape:
  "case Execute p w of
     (r, w') \<Rightarrow>
       (\<exists>pushed mapped emitted.
          trace w' = trace w @ pushed @ mapped @ emitted \<and>
          (\<forall>a \<in> set pushed. \<exists>rep. a = CourierCall (PushCall (temp_name (Pusher.DeploymentInfo p))
                   (Pusher.AppPath p) (AppName (Pusher.DeploymentInfo p))
                   (Instances (Pusher.DeploymentInfo p))) rep \<or>
                 a = CourierCall (LogsCall (temp_name (Pusher.DeploymentInfo p))) rep) \<and>
          (\<forall>a \<in> set mapped. \<exists>rep. a = CourierCall (MapRouteCall (temp_name (Pusher.DeploymentInfo p))
                   (DeploymentInfo.Domain (Pusher.DeploymentInfo p))
                   (AppName (Pusher.DeploymentInfo p))) rep) \<and>
          (\<forall>a \<in> set emitted. \<exists>err. a = EmitCall (Event C_PushFinishedEvent (pushData_of p)) err \<or>
                 a = EmitEventCall (PushFinishedEvent (pushFinished_of p)) err) \<and>
          (DeploymentInfo.Domain (Pusher.DeploymentInfo p) = [] \<longrightarrow> mapped = []) \<and>
          (DeploymentInfo.Domain (Pusher.DeploymentInfo p) \<noteq> [] \<and> r = None \<longrightarrow> length mapped = 1))"
proof -
  let ?di = "Pusher.DeploymentInfo p"
  let ?t = "AppName ?di @ TemporaryNameSuffix @ DeploymentInfo.UUID ?di"
  have tn: "?t = temp_name ?di" by (simp add: temp_name_def TemporaryNameSuffix_def)
  obtain r1 w1 where pu: "pushApplication p ?t (Pusher.AppPath p) w = (r1, w1)" by fastforce
  from pushApplication_step [OF pu] obtain pushed where
    t1: "trace w1 = trace w @ pushed"
    and p1: "\<forall>a \<in> set pushed. \<exists>rep. a = CourierCall (PushCall (temp_name ?di)
                   (Pusher.AppPath p) (AppName ?di) (Instances ?di)) rep \<or>
                 a = CourierCall (LogsCall (temp_name ?di)) rep"
    unfolding tn by fastforce
  have pack: "?thesis"
    if "Execute p w = (r, w')" "trace w' = trace w @ pushed @ mapped @ emitted"
      "\<forall>a \<in> set mapped. \<exists>rep. a = CourierCall (MapRouteCall (temp_name ?di)
                   (DeploymentInfo.Domain ?di) (AppName ?di)) rep"
      "\<forall>a \<in> set emitted. \<exists>err. a = EmitCall (Event C_PushFinishedEvent (pushData_of p)) err \<or>
                 a = EmitEventCall (PushFinishedEvent (pushFinished_of p)) err"
      "DeploymentInfo.Domain ?di = [] \<longrightarrow> mapped = []"
      "DeploymentInfo.Domain ?di \<noteq> [] \<and> r = None \<longrightarrow> length mapped = 1"
    for r w' mapped emitted
    unfolding that(1)
    apply (simp only: prod.case)
    apply (rule exI [where x = pushed], rule exI [where x = mapped], rule exI [where x = emitted])
    using that(2-) p1 apply (intro conjI)
    apply assumption+
    done
  show ?thesis
  proof (cases r1)
    case (Some e)
    then have s: "Execute p w = (Some e, w1)" using pu by (simp add: Execute_def Let_def)
    show ?thesis using t1 by (intro pack [OF s, where mapped = "[]" and emitted = "[]"]) simp_all
  next
    case None
    obtain r2 w2 where mp: "(if DeploymentInfo.Domain ?di \<noteq> []
                    then mapTempAppToLoadBalancedDomain p ?t w1 else (None, w1)) = (r2, w2)"
      by fastforce
    obtain mapped where t2: "trace w2 = trace w1 @ mapped"
      and p2: "\<forall>a \<in> set mapped. \<exists>rep. a = CourierCall (MapRouteCall (temp_name ?di)
                   (DeploymentInfo.Domain ?di) (AppName ?di)) rep"
      and m0: "DeploymentInfo.Domain ?di = [] \<longrightarrow> mapped = []"
      and m1: "DeploymentInfo.Domain ?di \<noteq> [] \<longrightarrow> length mapped = 1"
    proof (cases "DeploymentInfo.Domain ?di = []")
      case True
      with mp have "w2 = w1" by simp
      then show ?thesis using that [of "[]"] True by simp
    next
      case False
      with mp have "mapTempAppToLoadBalancedDomain p ?t w1 = (r2, w2)" by simp
      from mapTemp_step [OF this] obtain out err where
        "trace w2 = trace w1 @ [CourierCall (MapRouteCall (temp_name ?di)
           (DeploymentInfo.Domain ?di) (AppName ?di)) (Out out err)]"
        unfolding tn by blast
      then show ?thesis using that [of "[CourierCall (MapRouteCall (temp_name ?di)
           (DeploymentInfo.Domain ?di) (AppName ?di)) (Out out err)]"] False by simp
    qed
    show ?thesis
    proof (cases r2)
      case (Some e)
      then have s: "Execute p w = (Some e, w2)"
        using pu None mp by (simp add: Execute_def Let_def)
      show ?thesis using t1 t2 p2 m0
        by (intro pack [OF s, where mapped = mapped and emitted = "[]"]) simp_all
    next
      case r2: None
      let ?w3 = "logc (Debugf ''emitting a %s event'' [AType C_PushFinishedEvent]) w2"
      obtain r4 w4 where e1: "emit_legacy (Pusher.EventManager p)
          (Event C_PushFinishedEvent (pushData_of p)) ?w3 = (r4, w4)" by fastforce
      from emit_legacy_split [OF e1] have t4: "trace w4 = trace w2 @
          [EmitCall (Event C_PushFinishedEvent (pushData_of p)) r4]" by simp
      show ?thesis
      proof (cases r4)
        case (Some e)
        then have s: "Execute p w = (Some e, w4)"
          using pu None mp r2 e1 by (simp add: Execute_def Let_def pushData_of_def tn)
        show ?thesis using t1 t2 p2 m0 t4
          by (intro pack [OF s, where mapped = mapped
                and emitted = "[EmitCall (Event C_PushFinishedEvent (pushData_of p)) r4]"]) simp_all
      next
        case r4: None
        let ?w5 = "logc (Infof ''emitted a %s event'' [AType C_PushFinishedEvent]) w4"
        obtain r6 w6 where e2: "emit_event (Pusher.EventManager p)
          (PushFinishedEvent (pushFinished_of p)) ?w5 = (r6, w6)" by fastforce
        from emit_event_split [OF e2] have t6: "trace w6 = trace w4 @
          [EmitEventCall (PushFinishedEvent (pushFinished_of p)) r6]" by simp
        have "\<exists>w7. Execute p w = (r6, w7) \<and> trace w7 = trace w6"
          using pu None mp r2 e1 r4 e2
          by (cases r6) (simp_all add: Execute_def Let_def pushData_of_def pushFinished_of_def tn)
        then obtain w7 where s: "Execute p w = (r6, w7)" and t7: "trace w7 = trace w6" by blast
        show ?thesis using t1 t2 p2 m0 m1 t4 t6 t7
          by (intro pack [OF s, where mapped = mapped
                and emitted = "[EmitCall (Event C_PushFinishedEvent (pushData_of p)) r4,
                   EmitEventCall (PushFinishedEvent (pushFinished_of p)) r6]"]) simp_all
      qed
    qed
  qed
qed

lemma Verify_actions: "new_actions w (snd (Verify p w)) = []"
  by (simp add: Verify_def new_actions_def)

lemma Initially_actions:
  "\<exists>c rep. new_actions w (snd (Initially p w)) = [CourierCall c rep] \<and> (\<exists>a b c' d e f. c = LoginCall a b c' d e f)"
  by (auto simp: Initially_def Let_def new_actions_def courier_out_def split: prod.splits option.splits)

lemma Finally_actions:
  "\<exists>rep. new_actions w (snd (Finally p w)) = [CourierCall CleanUpCall rep]"
  by (auto simp: Finally_def new_actions_def courier_cleanup_def split: prod.splits)

lemma Execute_calls:
  assumes "a \<in> set (new_actions w (snd (Execute p w)))"
  shows "(\<exists>rep. a = CourierCall (PushCall (temp_name (Pusher.DeploymentInfo p))
                   (Pusher.AppPath p) (AppName (Pusher.DeploymentInfo p))
                   (Instances (Pusher.DeploymentInfo p))) rep) \<or>
         (\<exists>rep. a = CourierCall (LogsCall (temp_name (Pusher.DeploymentInfo p))) rep) \<or>
         (\<exists>rep. a = CourierCall (MapRouteCall (temp_name (Pusher.DeploymentInfo p))
                   (DeploymentInfo.Domain (Pusher.DeploymentInfo p))
                   (AppName (Pusher.DeploymentInfo p))) rep \<and>
                DeploymentInfo.Domain (Pusher.DeploymentInfo p) \<noteq> []) \<or>
         (\<exists>err. a = EmitCall (Event C_PushFinishedEvent (pushData_of p)) err) \<or>
         (\<exists>err. a = EmitEventCall (PushFinishedEvent (pushFinished_of p)) err)"
proof -
  obtain r w' where s: "Execute p w = (r, w')" by fastforce
  from Execute_shape [where p = p and w = w] s obtain pushed mapped emitted where
    t: "trace w' = trace w @ pushed @ mapped @ emitted"
    and p1: "\<forall>a \<in> set pushed. \<exists>rep. a = CourierCall (PushCall (temp_name (Pusher.DeploymentInfo p))
                   (Pusher.AppPath p) (AppName (Pusher.DeploymentInfo p))
                   (Instances (Pusher.DeploymentInfo p))) rep \<or>
                 a = CourierCall (LogsCall (temp_name (Pusher.DeploymentInfo p))) rep"
    and p2: "\<forall>a \<in> set mapped. \<exists>rep. a = CourierCall (MapRouteCall (temp_name (Pusher.DeploymentInfo p))
                   (DeploymentInfo.Domain (Pusher.DeploymentInfo p))
                   (AppName (Pusher.DeploymentInfo p))) rep"
    and p3: "\<forall>a \<in> set emitted. \<exists>err. a = EmitCall (Event C_PushFinishedEvent (pushData_of p)) err \<or>
                 a = EmitEventCall (PushFinishedEvent (pushFinished_of p)) err"
    and m0: "DeploymentInfo.Domain (Pusher.DeploymentInfo p) = [] \<longrightarrow> mapped = []"
    by auto
  from assms s new_actions_append [OF t]
  have "a \<in> set pushed \<or> a \<in> set mapped \<or> a \<in> set emitted" by auto
  then show ?thesis
  proof (elim disjE)
    assume "a \<in> set pushed" with p1 show ?thesis by blast
  next
    assume am: "a \<in> set mapped"
    with m0 have "DeploymentInfo.Domain (Pusher.DeploymentInfo p) \<noteq> []" by auto
    with am p2 show ?thesis by blast
  next
    assume "a \<in> set emitted" with p3 show ?thesis by blast
  qed
qed

lemma Execute_map_once:
  assumes d: "DeploymentInfo.Domain (Pusher.DeploymentInfo p) \<noteq> []"
    and ok: "fst (Execute p w) = None"
  shows "length (filter is_MapRoute (new_actions w (snd (Execute p w)))) = 1"
proof -
  obtain r w' where s: "Execute p w = (r, w')" by fastforce
  from Execute_shape [where p = p and w = w] s obtain pushed mapped emitted where
    t: "trace w' = trace w @ pushed @ mapped @ emitted"
    and p1: "\<forall>a \<in> set pushed. \<exists>rep. a = CourierCall (PushCall (temp_name (Pusher.DeploymentInfo p))
                   (Pusher.AppPath p) (AppName (Pusher.DeploymentInfo p))
                   (Instances (Pusher.DeploymentInfo p))) rep \<or>
                 a = CourierCall (LogsCall (temp_name (Pusher.DeploymentInfo p))) rep"
    and p2: "\<forall>a \<in> set mapped. \<exists>rep. a = CourierCall (MapRouteCall (temp_name (Pusher.DeploymentInfo p))
                   (DeploymentInfo.Domain (Pusher.DeploymentInfo p))
                   (AppName (Pusher.DeploymentInfo p))) rep"
    and p3: "\<forall>a \<in> set emitted. \<exists>err. a = EmitCall (Event C_PushFinishedEvent (pushData_of p)) err \<or>
                 a = EmitEventCall (PushFinishedEvent (pushFinished_of p)) err"
    and m1: "DeploymentInfo.Domain (Pusher.DeploymentInfo p) \<noteq> [] \<and> r = None \<longrightarrow> length mapped = 1"
    by auto
  from p1 have f1: "filter is_MapRoute pushed = []" by (auto simp: filter_empty_conv)
  from p3 have f3: "filter is_MapRoute emitted = []" by (auto simp: filter_empty_conv)
  from p2 have f2: "filter is_MapRoute mapped = mapped" by (auto simp: filter_id_conv)
  from m1 d ok s have "length mapped = 1" by simp
  with f1 f2 f3 s new_actions_append [OF t] show ?thesis by simp
qed

lemma follows_head:
  "follows ((c, mk) # steps) tr r \<Longrightarrow>
     \<exists>rep tr'. tr = CourierCall c rep # tr' \<and> (tr' = [] \<or> follows steps tr' r)"
  by (cases tr) (auto split: action.splits reply.splits option.splits)

lemma Success_unmap_once:
  assumes d: "DeploymentInfo.Domain (Pusher.DeploymentInfo p) \<noteq> []"
    and ex: "fst (Exists (Pusher.Courier p) (AppName (Pusher.DeploymentInfo p)) (ext w))"
  shows "length (filter is_UnmapRoute (new_actions w (snd (Success p w)))) = 1"
proof -
  let ?di = "Pusher.DeploymentInfo p"
  obtain r w' where s: "Success p w = (r, w')" by fastforce
  from Success_follows [where p = p and w = w] s ex obtain tr where
    t: "trace w' = trace w @ CourierCall (ExistsCall (AppName ?di)) (Found True) # tr"
    and f: "follows (success_plan ?di True) tr r"
    by auto
  from f d have "follows (unmap_step ?di # [delete_step (AppName ?di), rename_step ?di]) tr r"
    by (simp add: success_plan_def)
  then obtain rep tr' where tr: "tr = CourierCall (fst (unmap_step ?di)) rep # tr'"
    and rest: "tr' = [] \<or> follows [delete_step (AppName ?di), rename_step ?di] tr' r"
    using follows_head [of "fst (unmap_step ?di)" "snd (unmap_step ?di)"] by fastforce
  have "filter is_UnmapRoute tr' = []"
  proof (cases "tr' = []")
    case False
    with rest have fo: "follows [delete_step (AppName ?di), rename_step ?di] tr' r" by simp
    show ?thesis
      unfolding filter_empty_conv
    proof
      fix a assume "a \<in> set tr'"
      from follows_calls [OF fo this] show "\<not> is_UnmapRoute a"
        by (auto simp: delete_step_def rename_step_def)
    qed
  qed simp
  with tr s new_actions_append [OF t] show ?thesis
    by (simp add: unmap_step_def)
qed

subsection \<open>Route calls\<close>

text \<open>
  Claim C5. When the domain of the deployment is empty, no phase of the pusher (Verify,
  Initially, Execute, Success, Undo, Finally) calls \<open>MapRoute\<close> or \<open>UnmapRoute\<close> on the
  courier. When it is not empty, an \<open>Execute\<close> that succeeds has called \<open>MapRoute\<close>
  exactly once, and a \<open>Success\<close> that found the original application has called
  \<open>UnmapRoute\<close> exactly once.
\<close>

theorem route_calls:
  "(DeploymentInfo.Domain (Pusher.DeploymentInfo p) = [] \<longrightarrow>
      (\<forall>phase \<in> set [Verify p, Initially p, Execute p, Success p, Undo p, Finally p].
         \<forall>a \<in> set (new_actions w (snd (phase w))). \<not> is_MapRoute a \<and> \<not> is_UnmapRoute a)) \<and>
   (DeploymentInfo.Domain (Pusher.DeploymentInfo p) \<noteq> [] \<longrightarrow>
      (fst (Execute p w) = None \<longrightarrow>
         length (filter is_MapRoute (new_actions w (snd (Execute p w)))) = 1) \<and>
      (original_exists p w \<longrightarrow>
         length (filter is_UnmapRoute (new_actions w (snd (Success p w)))) = 1))"
  unfolding original_exists_def
proof (intro conjI impI)
  assume d: "DeploymentInfo.Domain (Pusher.DeploymentInfo p) = []"
  have ver: "\<forall>a \<in> set (new_actions w (snd (Verify p w))). \<not> is_MapRoute a \<and> \<not> is_UnmapRoute a"
    by (simp add: Verify_actions)
  have ini: "\<forall>a \<in> set (new_actions w (snd (Initially p w))). \<not> is_MapRoute a \<and> \<not> is_UnmapRoute a"
    using Initially_actions [of w p] by auto
  have fin: "\<forall>a \<in> set (new_actions w (snd (Finally p w))). \<not> is_MapRoute a \<and> \<not> is_UnmapRoute a"
    using Finally_actions [of w p] by auto
  have exe: "\<forall>a \<in> set (new_actions w (snd (Execute p w))). \<not> is_MapRoute a \<and> \<not> is_UnmapRoute a"
    using d by (auto dest!: Execute_calls)
  have suc: "\<forall>a \<in> set (new_actions w (snd (Success p w))). \<not> is_MapRoute a \<and> \<not> is_UnmapRoute a"
    for w :: "'a world"
    using d by (auto dest!: Success_calls)
  have und: "\<forall>a \<in> set (new_actions w (snd (Undo p w))). \<not> is_MapRoute a \<and> \<not> is_UnmapRoute a"
  proof (cases "EnableRollback (Pusher.Environment p)")
    case True
    then show ?thesis by (auto dest!: Undo_calls)
  next
    case False
    let ?w0 = "logc (Errorf ''Failed to deploy, deployment not rolled back due to EnableRollback=false'' []) w"
    have "new_actions w (snd (Undo p w)) = new_actions ?w0 (snd (Success p ?w0))"
      by (simp add: Undo_disabled [OF False] new_actions_def)
    with suc [of ?w0] show ?thesis by simp
  qed
  from ver ini exe suc [of w] und fin
  show "\<forall>phase \<in> set [Verify p, Initially p, Execute p, Success p, Undo p, Finally p].
         \<forall>a \<in> set (new_actions w (snd (phase w))). \<not> is_MapRoute a \<and> \<not> is_UnmapRoute a"
    by simp
next
  assume "DeploymentInfo.Domain (Pusher.DeploymentInfo p) \<noteq> []" "fst (Execute p w) = None"
  then show "length (filter is_MapRoute (new_actions w (snd (Execute p w)))) = 1"
    by (rule Execute_map_once)
next
  assume "DeploymentInfo.Domain (Pusher.DeploymentInfo p) \<noteq> []"
    "fst (Exists (Pusher.Courier p) (AppName (Pusher.DeploymentInfo p)) (ext w))"
  then show "length (filter is_UnmapRoute (new_actions w (snd (Success p w)))) = 1"
    by (rule Success_unmap_once)
qed

text \<open>
  A pusher without a domain and one with a domain, on the simulated foundation.
\<close>

theorem route_calls_witness:
  "DeploymentInfo.Domain (Pusher.DeploymentInfo (pusher0\<lparr>Pusher.DeploymentInfo := di0\<lparr>DeploymentInfo.Domain := []\<rparr>\<rparr>)) = [] \<and>
   filter (\<lambda>a. is_MapRoute a \<or> is_UnmapRoute a)
     (new_actions (world0 [''app''])
        (snd (Execute (pusher0\<lparr>Pusher.DeploymentInfo := di0\<lparr>DeploymentInfo.Domain := []\<rparr>\<rparr>)
                (world0 [''app''])))
      @ new_actions (world0 [''app'', ''app-new-build-u1''])
        (snd (Success (pusher0\<lparr>Pusher.DeploymentInfo := di0\<lparr>DeploymentInfo.Domain := []\<rparr>\<rparr>)
                (world0 [''app'', ''app-new-build-u1'']))))
     = [] \<and>
   DeploymentInfo.Domain (Pusher.DeploymentInfo pusher0) \<noteq> [] \<and>
   fst (Execute pusher0 (world0 [''app''])) = None \<and>
   length (filter is_MapRoute (new_actions (world0 [''app'']) (snd (Execute pusher0 (world0 [''app'']))))) = 1 \<and>
   original_exists pusher0 (world0 [''app'', ''app-new-build-u1'']) \<and>
   length (filter is_UnmapRoute
             (new_actions (world0 [''app'', ''app-new-build-u1''])
                (snd (Success pusher0 (world0 [''app'', ''app-new-build-u1'']))))) = 1"
  using route_calls [where p = "pusher0\<lparr>Pusher.DeploymentInfo := di0\<lparr>DeploymentInfo.Domain := []\<rparr>\<rparr>"
                        and w = "world0 [''app'']"]
    route_calls [where p = "pusher0\<lparr>Pusher.DeploymentInfo := di0\<lparr>DeploymentInfo.Domain := []\<rparr>\<rparr>"
                        and w = "world0 [''app'', ''app-new-build-u1'']"]
    route_calls [where p = pusher0 and w = "world0 [''app'']"]
    route_calls [where p = pusher0 and w = "world0 [''app'', ''app-new-build-u1'']"]
  by (simp add: fixture_defs run_defs pusher_run_defs)

subsection \<open>The temporary name\<close>

text \<open>
  Claim C6. Every pusher of a deployment (any foundation, the same \<open>DeploymentInfo\<close>)
  names the temporary application \<open>AppName + "-new-build-" + UUID\<close> wherever it names
  it: in the push, the logs request, the route mapping and the events of \<open>Execute\<close>, in
  the rename of \<open>Success\<close> and \<open>Undo\<close>, and in the delete of a rollback.
\<close>

theorem temp_name_everywhere:
  assumes same: "Pusher.DeploymentInfo q = di"
  shows "(\<forall>a \<in> set (new_actions w (snd (Execute q w)) @ new_actions w (snd (Success q w))
                   @ new_actions w (snd (Undo q w))).
            \<forall>n. temp_slot a = Some n \<longrightarrow> n = AppName di @ ''-new-build-'' @ DeploymentInfo.UUID di) \<and>
         (EnableRollback (Pusher.Environment q) \<longrightarrow>
            (\<forall>a \<in> set (new_actions w (snd (Undo q w))).
               \<forall>n rep. a = CourierCall (DeleteCall n) rep \<longrightarrow>
                  n = AppName di @ ''-new-build-'' @ DeploymentInfo.UUID di))"
proof -
  have tn: "AppName di @ ''-new-build-'' @ DeploymentInfo.UUID di = temp_name (Pusher.DeploymentInfo q)"
    using same by (simp add: temp_name_def)
  have exe: "\<forall>n. temp_slot a = Some n \<longrightarrow> n = temp_name (Pusher.DeploymentInfo q)"
    if "a \<in> set (new_actions w (snd (Execute q w)))" for a
    using Execute_calls [OF that] by (auto simp: pushData_of_def pushFinished_of_def)
  have suc: "\<forall>n. temp_slot a = Some n \<longrightarrow> n = temp_name (Pusher.DeploymentInfo q)"
    if "a \<in> set (new_actions w (snd (Success q w)))" for a and w :: "'a world"
    using Success_calls [OF that] by auto
  have und: "\<forall>n. temp_slot a = Some n \<longrightarrow> n = temp_name (Pusher.DeploymentInfo q)"
    if a: "a \<in> set (new_actions w (snd (Undo q w)))" for a
  proof (cases "EnableRollback (Pusher.Environment q)")
    case True
    from Undo_calls [OF True a] show ?thesis by auto
  next
    case False
    let ?w0 = "logc (Errorf ''Failed to deploy, deployment not rolled back due to EnableRollback=false'' []) w"
    have "new_actions w (snd (Undo q w)) = new_actions ?w0 (snd (Success q ?w0))"
      by (simp add: Undo_disabled [OF False] new_actions_def)
    with a suc [of a ?w0] show ?thesis by simp
  qed
  have del: "\<forall>n rep. a = CourierCall (DeleteCall n) rep \<longrightarrow> n = temp_name (Pusher.DeploymentInfo q)"
    if "EnableRollback (Pusher.Environment q)" "a \<in> set (new_actions w (snd (Undo q w)))" for a
    using Undo_calls [OF that] by auto
  from exe suc [of _ w] und del show ?thesis
    unfolding tn by auto
qed

text \<open>The pusher of a second foundation of the same deployment.\<close>

theorem temp_name_everywhere_witness:
  "Pusher.DeploymentInfo (pusher0\<lparr>Pusher.FoundationURL := ''api.f2''\<rparr>) = di0 \<and>
   EnableRollback (Pusher.Environment (pusher0\<lparr>Pusher.FoundationURL := ''api.f2''\<rparr>)) \<and>
   map temp_slot
     (new_actions (world0 [''app''])
        (snd (Execute (pusher0\<lparr>Pusher.FoundationURL := ''api.f2''\<rparr>) (world0 [''app'']))))
     = [Some ''app-new-build-u1'', Some ''app-new-build-u1'', Some ''app-new-build-u1'',
        Some ''app-new-build-u1''] \<and>
   new_actions (world0 [''app'', ''app-new-build-u1''])
        (snd (Undo (pusher0\<lparr>Pusher.FoundationURL := ''api.f2''\<rparr>)
                (world0 [''app'', ''app-new-build-u1''])))
     = [CourierCall (ExistsCall ''app'') (Found True),
        CourierCall (DeleteCall ''app-new-build-u1'') (Out ''deleted'' None)]"
  using temp_name_everywhere [where q = "pusher0\<lparr>Pusher.FoundationURL := ''api.f2''\<rparr>" and di = di0
       and w = "world0 [''app'']"]
    temp_name_everywhere [where q = "pusher0\<lparr>Pusher.FoundationURL := ''api.f2''\<rparr>" and di = di0
       and w = "world0 [''app'', ''app-new-build-u1'']"]
  by (simp add: fixture_defs run_defs pusher_run_defs)

section \<open>Properties of the stop controller\<close>

lemma Fprintln_frame [simp]:
  "trace (Fprintln s w) = trace w" "ext (Fprintln s w) = ext w" "logs (Fprintln s w) = logs w"
  "response (Fprintln s w) = response w @ s @ ''\<newline>''"
  by (simp_all add: Fprintln_def sink_write_def)

lemma logc_logs [simp]: "logs (logc l w) = logs w @ [l]"
  by (simp add: logc_def)

lemma printErrors_loop_frame:
  "trace (snd (printErrors_loop es w)) = trace w \<and> ext (snd (printErrors_loop es w)) = ext w \<and>
   logs (snd (printErrors_loop es w)) = logs w \<and>
   fst (printErrors_loop es w) = (if lacks_details es then Some IndexOutOfRange else None)"
  by (induction es arbitrary: w) (auto simp: Let_def split: list.splits)

lemma printErrors_split:
  "printErrors c err w = (pn, err', w') \<Longrightarrow>
     trace w' = trace w \<and> ext w' = ext w \<and> logs w' = logs w \<and>
     pn = (if lacks_details (ErrorFinder c (response w)) then Some IndexOutOfRange else None) \<and>
     (err \<noteq> None \<longrightarrow> err' = classified c err (response w)) \<and>
     (ErrorFinder c (response w) = [] \<longrightarrow> response w' = response w)"
  using printErrors_loop_frame [of "ErrorFinder c (response w)" "sink_write (response w) (w\<lparr>response := []\<rparr>)"]
  by (auto simp: printErrors_def Let_def classified_def sink_write_def split: list.splits prod.splits)

lemma resolveAuthorization_result:
  "fst (resolveAuthorization c auth envs w) =
     (if Authorization.Username auth = [] \<and> Authorization.Password auth = []
      then (if Authenticate envs then (zero_Authorization, Some BasicAuthError)
            else (\<lparr>Authorization.Username = Config.Username (Config c),
                   Authorization.Password = Config.Password (Config c)\<rparr>, None))
      else (auth, None))"
  "snd (resolveAuthorization c auth envs w) = logc (Debug ''checking for basic auth'') w"
  by (simp_all add: resolveAuthorization_def Let_def)

lemma emitStopFinish_split:
  "emitStopFinish c cf auth env data dr w = (dr', w') \<Longrightarrow>
     dr' = dr \<and> (\<exists>err. trace w' = trace w @ [EmitEventCall (StopFinishedEvent cf auth env data) err] \<and>
        err = fst (EmitEvent (StopController.EventManager c) (StopFinishedEvent cf auth env data) (ext w, response w))) \<and>
     logs w' = logs w @ [Debugf ''emitting a %s event'' [AName (StopFinishedEvent cf auth env data)]] \<and>
     response w' = snd (snd (EmitEvent (StopController.EventManager c) (StopFinishedEvent cf auth env data) (ext w, response w)))"
  by (auto simp: emitStopFinish_def Let_def emit_event_def logc_def split: prod.splits)

lemma emitSSOF_split:
  assumes "emitStopSuccessOrFailure msg c cf auth env data dr w = (pn, dr1, w')"
  shows "dr1 = dr\<lparr>Error := classified c (Error dr) (response w)\<rparr>"
    and "pn = (if Error dr \<noteq> None \<and> lacks_details (ErrorFinder c (response w))
               then Some IndexOutOfRange else None)"
    and "pn \<noteq> None \<Longrightarrow> trace w' = trace w"
    and "pn = None \<Longrightarrow> \<exists>serr. trace w' = trace w @
           [EmitEventCall (if Error dr = None then StopSuccessEvent cf auth env data
                           else StopFailureEvent cf auth env data (classified c (Error dr) (response w)))
              serr]"
proof -
  show "dr1 = dr\<lparr>Error := classified c (Error dr) (response w)\<rparr>"
    using assms
    by (auto simp: emitStopSuccessOrFailure_def Let_def classified_def
             split: if_splits prod.splits option.splits dest!: printErrors_split)
  show "pn = (if Error dr \<noteq> None \<and> lacks_details (ErrorFinder c (response w))
               then Some IndexOutOfRange else None)"
    using assms
    by (auto simp: emitStopSuccessOrFailure_def Let_def
             split: if_splits prod.splits option.splits dest!: printErrors_split)
  show "pn \<noteq> None \<Longrightarrow> trace w' = trace w"
    using assms
    by (auto simp: emitStopSuccessOrFailure_def Let_def
             split: if_splits prod.splits option.splits dest!: printErrors_split)
  show "pn = None \<Longrightarrow> \<exists>serr. trace w' = trace w @
           [EmitEventCall (if Error dr = None then StopSuccessEvent cf auth env data
                           else StopFailureEvent cf auth env data (classified c (Error dr) (response w)))
              serr]"
    using assms
    by (auto simp: emitStopSuccessOrFailure_def Let_def emit_event_def
             split: if_splits prod.splits option.splits dest!: printErrors_split)
qed


lemma body_split:
  assumes "StopDeployment_body c cf data env auth di w = (bp, dr, w')"
  shows "case EmitEvent (StopController.EventManager c) (StopStartedEvent cf data env auth)
               (ext w, response w) of
           (Some err, x, r) \<Rightarrow>
             bp = None \<and>
             dr = \<lparr>StatusCode = 500, DeployResponse.DeploymentInfo = Some di,
                   Error = Some (EventError ''StopStartedEvent'' (InitializationError err))\<rparr> \<and>
             trace w' = trace w @ [EmitEventCall (StopStartedEvent cf data env auth) (Some err)] \<and>
             response w' = r \<and> logs w' = logs w @ [LogError err]
         | (None, x, r) \<Rightarrow>
             trace w' = trace w @ [EmitEventCall (StopStartedEvent cf data env auth) None,
                                   DeployCall di env] \<and>
             logs w' = logs w \<and>
             (bp = None \<or> bp = Some NilPointerDereference \<and> dr = zero_DeployResponse)"
  using assms
  by (auto simp: StopDeployment_body_def emit_event_def deploy_def logc_def Let_def
        StatusInternalServerError_def
      split: prod.splits option.splits)

lemma StopDeployment_resolved:
  assumes env: "Environments (Config c) (CFContext.Environment (Deployment.CFContext d)) = Some env"
    and auth: "fst (resolveAuthorization c (Deployment.Authorization d) env w) = (auth, None)"
  shows "\<exists>bp dr w3 dp dr1 w4 w5.
      StopDeployment_body c (Deployment.CFContext d) (data_of data0) env auth
          (deploymentInfo_of c (Deployment.CFContext d) (data_of data0) env auth)
          (logc (Debug ''checking for basic auth'')
             (logc (Debugf ''Preparing to stop %s with UUID %s''
                       [AStr (Application (Deployment.CFContext d)),
                        AStr (DeploymentLogger.UUID (Log c))]) w)) = (bp, dr, w3) \<and>
      emitStopSuccessOrFailure msg c (Deployment.CFContext d) auth env (data_of data0) dr w3
        = (dp, dr1, w4) \<and>
      emitStopFinish c (Deployment.CFContext d) auth env (data_of data0) dr1 w4 = (dr1, w5) \<and>
      StopDeployment msg c d data0 w =
        ((case bp of Some pn \<Rightarrow> Panicked pn
          | None \<Rightarrow> (case dp of Some pn \<Rightarrow> Panicked pn | None \<Rightarrow> Returned dr1)), w5)"
proof -
  let ?cf = "Deployment.CFContext d"
  let ?w1 = "logc (Debugf ''Preparing to stop %s with UUID %s''
                       [AStr (Application ?cf), AStr (DeploymentLogger.UUID (Log c))]) w"
  let ?w2 = "logc (Debug ''checking for basic auth'') ?w1"
  have re: "resolveEnvironment c (CFContext.Environment ?cf) = (env, None)"
    using env by (simp add: resolveEnvironment_def)
  have "fst (resolveAuthorization c (Deployment.Authorization d) env ?w1) = (auth, None)"
    using auth by (simp only: resolveAuthorization_result)
  moreover have "snd (resolveAuthorization c (Deployment.Authorization d) env ?w1) = ?w2"
    by (simp only: resolveAuthorization_result)
  ultimately have ra: "resolveAuthorization c (Deployment.Authorization d) env ?w1 = ((auth, None), ?w2)"
    by (metis prod.collapse)
  obtain bp dr w3 where b: "StopDeployment_body c ?cf (data_of data0) env auth
          (deploymentInfo_of c ?cf (data_of data0) env auth) ?w2 = (bp, dr, w3)"
    by (metis prod.collapse)
  obtain dp dr1 w4 where s: "emitStopSuccessOrFailure msg c ?cf auth env (data_of data0) dr w3
        = (dp, dr1, w4)"
    by (metis prod.collapse)
  obtain dr2 w5 where f: "emitStopFinish c ?cf auth env (data_of data0) dr1 w4 = (dr2, w5)"
    by (metis prod.collapse)
  from emitStopFinish_split [OF f] have dr2: "dr2 = dr1" by simp
  note f = f [unfolded dr2]
  have "StopDeployment msg c d data0 w =
        ((case bp of Some pn \<Rightarrow> Panicked pn
          | None \<Rightarrow> (case dp of Some pn \<Rightarrow> Panicked pn | None \<Rightarrow> Returned dr1)), w5)"
    unfolding StopDeployment_def Let_def re prod.case option.case ra
      data_of_def [symmetric] deploymentInfo_of_def [symmetric] b s f
    by simp
  with b s f show ?thesis by blast
qed

subsection \<open>Order of the deferred emissions\<close>

text \<open>
  Claim C2. In every call of \<open>StopDeployment\<close> that gets as far as registering the two
  deferred emissions (the environment and the credentials resolve), the finished event is
  the last thing the controller emits, and exactly once: the success or failure event
  comes right before it, and nothing the controller does before that is a success,
  failure or finished event. The success or failure event is missing only when the
  deferred classifier panics.
\<close>

theorem stop_finished_last:
  assumes env: "Environments (Config c) (CFContext.Environment (Deployment.CFContext d)) = Some env"
    and auth: "fst (resolveAuthorization c (Deployment.Authorization d) env w) = (auth, None)"
  shows "case StopDeployment msg c d data0 w of
           (out, w') \<Rightarrow>
             (\<exists>pre sf fin. new_actions w w' = pre @ sf @ [fin] \<and> is_Finished fin \<and>
                (\<forall>a \<in> set (pre @ sf). \<not> is_Finished a) \<and>
                (\<forall>a \<in> set pre. \<not> is_SuccessOrFailure a) \<and>
                (\<forall>a \<in> set sf. is_SuccessOrFailure a) \<and> length sf \<le> 1 \<and>
                (sf = [] \<longleftrightarrow> out = Panicked IndexOutOfRange))"
proof -
  let ?cf = "Deployment.CFContext d"
  let ?data = "data_of data0"
  let ?w2 = "logc (Debug ''checking for basic auth'')
             (logc (Debugf ''Preparing to stop %s with UUID %s''
                       [AStr (Application ?cf), AStr (DeploymentLogger.UUID (Log c))]) w)"
  from StopDeployment_resolved [OF env auth, of data0 msg]
  obtain bp dr w3 dp dr1 w4 w5 where
    b: "StopDeployment_body c ?cf ?data env auth (deploymentInfo_of c ?cf ?data env auth) ?w2
          = (bp, dr, w3)"
    and s: "emitStopSuccessOrFailure msg c ?cf auth env ?data dr w3 = (dp, dr1, w4)"
    and f: "emitStopFinish c ?cf auth env ?data dr1 w4 = (dr1, w5)"
    and r: "StopDeployment msg c d data0 w =
        ((case bp of Some pn \<Rightarrow> Panicked pn
          | None \<Rightarrow> (case dp of Some pn \<Rightarrow> Panicked pn | None \<Rightarrow> Returned dr1)), w5)"
    by blast
  from body_split [OF b] obtain pre where
    t3: "trace w3 = trace w @ pre"
    and pre: "\<forall>a \<in> set pre. \<not> is_Finished a \<and> \<not> is_SuccessOrFailure a"
    and bp: "bp = None \<or> bp = Some NilPointerDereference \<and> dr = zero_DeployResponse"
    by (auto split: prod.splits option.splits)
  from emitStopFinish_split [OF f] obtain ferr where
    t5: "trace w5 = trace w4 @ [EmitEventCall (StopFinishedEvent ?cf auth env ?data) ferr]"
    by blast
  have dp: "dp = (if Error dr \<noteq> None \<and> lacks_details (ErrorFinder c (response w3))
               then Some IndexOutOfRange else None)"
    by (rule emitSSOF_split(2) [OF s])
  obtain sf where t4: "trace w4 = trace w3 @ sf"
    and sf: "\<forall>a \<in> set sf. is_SuccessOrFailure a \<and> \<not> is_Finished a" "length sf \<le> 1"
    and sf0: "sf = [] \<longleftrightarrow> dp \<noteq> None"
  proof (cases dp)
    case None
    from emitSSOF_split(4) [OF s None] obtain serr where
      "trace w4 = trace w3 @
           [EmitEventCall (if Error dr = None then StopSuccessEvent ?cf auth env ?data
                           else StopFailureEvent ?cf auth env ?data (classified c (Error dr) (response w3)))
              serr]" by blast
    then show ?thesis using None
      by (intro that [of "[EmitEventCall (if Error dr = None then StopSuccessEvent ?cf auth env ?data
                           else StopFailureEvent ?cf auth env ?data (classified c (Error dr) (response w3)))
              serr]"]) auto
  next
    case (Some pn)
    with emitSSOF_split(3) [OF s] have "trace w4 = trace w3" by simp
    then show ?thesis using Some by (intro that [of "[]"]) auto
  qed
  have out: "(dp \<noteq> None) \<longleftrightarrow>
      (case bp of Some pn \<Rightarrow> Panicked pn
          | None \<Rightarrow> (case dp of Some pn \<Rightarrow> Panicked pn | None \<Rightarrow> Returned dr1))
        = Panicked IndexOutOfRange"
    using bp dp by (auto simp: zero_DeployResponse_def split: option.splits if_splits)
  have n: "new_actions w w5 = pre @ sf @ [EmitEventCall (StopFinishedEvent ?cf auth env ?data) ferr]"
    using t3 t4 t5 by (simp add: new_actions_def)
  show ?thesis
    unfolding r prod.case
    apply (rule exI [where x = pre], rule exI [where x = sf],
           rule exI [where x = "EmitEventCall (StopFinishedEvent ?cf auth env ?data) ferr"])
    using n pre sf sf0 out by auto
qed

text \<open>A stop that succeeds: started, deploy, success, finished.\<close>

theorem stop_finished_last_witness:
  "Environments (Config (controller0 no_event))
     (CFContext.Environment (Deployment.CFContext (deployment0 ''prod'' auth0))) = Some env0 \<and>
   fst (resolveAuthorization (controller0 no_event)
          (Deployment.Authorization (deployment0 ''prod'' auth0)) env0 (world0 ())) = (auth0, None) \<and>
   map (\<lambda>a. (is_Started a, is_Deploy a, is_SuccessOrFailure a, is_Finished a))
     (new_actions (world0 ())
        (snd (StopDeployment error_text (controller0 no_event) (deployment0 ''prod'' auth0) None
                (world0 ()))))
     = [(True, False, False, False), (False, True, False, False),
        (False, False, True, False), (False, False, False, True)]"
  using stop_finished_last [where c = "controller0 no_event" and d = "deployment0 ''prod'' auth0"
          and env = env0 and auth = auth0 and w = "world0 ()" and msg = error_text
          and ?data0.0 = None]
  by (simp add: fixture_defs run_defs controller_run_defs)

subsection \<open>A failing start event\<close>

text \<open>
  Claim C1 as it is worded asks for an \<open>InitializationError\<close> that wraps an
  \<open>EventError\<close>. The controller nests them the other way round: with a subscriber that
  fails on the started event, the error returned is an \<open>EventError\<close> that wraps an
  \<open>InitializationError\<close>.
\<close>

theorem start_failure_counterexample:
  "fst (EmitEvent (StopController.EventManager (controller0 is_StopStarted))
          (StopStartedEvent cf0 Map.empty env0 auth0) ((), []))
     = Some (ExternalError ''subscriber failed'') \<and>
   \<not> claimed_failed_start
        (fst (StopDeployment error_text (controller0 is_StopStarted) (deployment0 ''prod'' auth0)
                None (world0 ())))"
  by (simp add: fixture_defs run_defs controller_run_defs)

text \<open>
  Claim C1, as amended. When the emission of the started event returns an error, the
  deployer is not invoked, the failure event and then the finished event are emitted, and
  the call returns status 500 with the error \<open>EventError\<close> of type \<open>StopStartedEvent\<close>
  wrapping an \<open>InitializationError\<close> that wraps the emission error, or in its place the
  first diagnosis of the error finder when it finds one in the transcript. (When a
  diagnosis has no details the deferred classifier panics; the finished event is emitted
  all the same.)
\<close>

theorem start_failure:
  assumes env: "Environments (Config c) (CFContext.Environment (Deployment.CFContext d)) = Some env"
    and auth: "fst (resolveAuthorization c (Deployment.Authorization d) env w) = (auth, None)"
    and started: "EmitEvent (StopController.EventManager c)
                    (StopStartedEvent (Deployment.CFContext d) (data_of data0) env auth)
                    (ext w, response w) = (Some err, x, transcript)"
  shows "case StopDeployment msg c d data0 w of
           (out, w') \<Rightarrow>
             (\<exists>serr ferr.
                if lacks_details (ErrorFinder c transcript)
                then out = Panicked IndexOutOfRange \<and>
                     new_actions w w' =
                       [EmitEventCall (StopStartedEvent (Deployment.CFContext d) (data_of data0) env auth) (Some err),
                        EmitEventCall (StopFinishedEvent (Deployment.CFContext d) auth env (data_of data0)) ferr]
                else out = Returned
                       \<lparr>StatusCode = 500,
                        DeployResponse.DeploymentInfo =
                          Some (deploymentInfo_of c (Deployment.CFContext d) (data_of data0) env auth),
                        Error = classified c
                          (Some (EventError ''StopStartedEvent'' (InitializationError err))) transcript\<rparr> \<and>
                     new_actions w w' =
                       [EmitEventCall (StopStartedEvent (Deployment.CFContext d) (data_of data0) env auth) (Some err),
                        EmitEventCall (StopFailureEvent (Deployment.CFContext d) auth env (data_of data0)
                           (classified c
                              (Some (EventError ''StopStartedEvent'' (InitializationError err))) transcript)) serr,
                        EmitEventCall (StopFinishedEvent (Deployment.CFContext d) auth env (data_of data0)) ferr])"
proof -
  let ?cf = "Deployment.CFContext d"
  let ?data = "data_of data0"
  let ?w2 = "logc (Debug ''checking for basic auth'')
             (logc (Debugf ''Preparing to stop %s with UUID %s''
                       [AStr (Application ?cf), AStr (DeploymentLogger.UUID (Log c))]) w)"
  let ?e = "EventError ''StopStartedEvent'' (InitializationError err)"
  from StopDeployment_resolved [OF env auth, of data0 msg]
  obtain bp dr w3 dp dr1 w4 w5 where
    b: "StopDeployment_body c ?cf ?data env auth (deploymentInfo_of c ?cf ?data env auth) ?w2
          = (bp, dr, w3)"
    and s: "emitStopSuccessOrFailure msg c ?cf auth env ?data dr w3 = (dp, dr1, w4)"
    and f: "emitStopFinish c ?cf auth env ?data dr1 w4 = (dr1, w5)"
    and r: "StopDeployment msg c d data0 w =
        ((case bp of Some pn \<Rightarrow> Panicked pn
          | None \<Rightarrow> (case dp of Some pn \<Rightarrow> Panicked pn | None \<Rightarrow> Returned dr1)), w5)"
    by blast
  from body_split [OF b] started have
    bp: "bp = None"
    and dr: "dr = \<lparr>StatusCode = 500,
                   DeployResponse.DeploymentInfo = Some (deploymentInfo_of c ?cf ?data env auth),
                   Error = Some ?e\<rparr>"
    and t3: "trace w3 = trace w @ [EmitEventCall (StopStartedEvent ?cf ?data env auth) (Some err)]"
    and r3: "response w3 = transcript"
    by simp_all
  from emitStopFinish_split [OF f] obtain ferr where
    t5: "trace w5 = trace w4 @ [EmitEventCall (StopFinishedEvent ?cf auth env ?data) ferr]"
    by blast
  have dp: "dp = (if lacks_details (ErrorFinder c transcript) then Some IndexOutOfRange else None)"
    using emitSSOF_split(2) [OF s] dr r3 by simp
  have dr1: "dr1 = \<lparr>StatusCode = 500,
                   DeployResponse.DeploymentInfo = Some (deploymentInfo_of c ?cf ?data env auth),
                   Error = classified c (Some ?e) transcript\<rparr>"
    using emitSSOF_split(1) [OF s] dr r3 by simp
  show ?thesis
  proof (cases "lacks_details (ErrorFinder c transcript)")
    case True
    with dp emitSSOF_split(3) [OF s] have "trace w4 = trace w3" by simp
    with t3 t5 have "new_actions w w5 =
        [EmitEventCall (StopStartedEvent ?cf ?data env auth) (Some err),
         EmitEventCall (StopFinishedEvent ?cf auth env ?data) ferr]"
      by (simp add: new_actions_def)
    with True dp bp show ?thesis
      unfolding r by auto
  next
    case False
    with dp have dpn: "dp = None" by simp
    from emitSSOF_split(4) [OF s dpn] dr r3 obtain serr where
      "trace w4 = trace w3 @
         [EmitEventCall (StopFailureEvent ?cf auth env ?data (classified c (Some ?e) transcript)) serr]"
      by auto
    with t3 t5 have "new_actions w w5 =
        [EmitEventCall (StopStartedEvent ?cf ?data env auth) (Some err),
         EmitEventCall (StopFailureEvent ?cf auth env ?data (classified c (Some ?e) transcript)) serr,
         EmitEventCall (StopFinishedEvent ?cf auth env ?data) ferr]"
      by (simp add: new_actions_def)
    with False dpn bp dr1 show ?thesis
      unfolding r by auto
  qed
qed

text \<open>
  A subscriber of the started event fails: status 500, no deploy, failure, then finished;
  the same with an error finder that finds a diagnosis, and with one whose diagnosis has
  no details.
\<close>

theorem start_failure_witness:
  "Environments (Config (controller0 is_StopStarted))
     (CFContext.Environment (Deployment.CFContext (deployment0 ''prod'' auth0))) = Some env0 \<and>
   fst (resolveAuthorization (controller0 is_StopStarted)
          (Deployment.Authorization (deployment0 ''prod'' auth0)) env0 (world0 ())) = (auth0, None) \<and>
   EmitEvent (StopController.EventManager (controller0 is_StopStarted))
       (StopStartedEvent (Deployment.CFContext (deployment0 ''prod'' auth0)) (data_of None) env0 auth0)
       (ext (world0 ()), response (world0 ()))
     = (Some (ExternalError ''subscriber failed''), (), []) \<and>
   fst (StopDeployment error_text (controller0 is_StopStarted) (deployment0 ''prod'' auth0) None
          (world0 ()))
     = Returned
         \<lparr>StatusCode = 500,
          DeployResponse.DeploymentInfo =
            Some (deploymentInfo_of (controller0 is_StopStarted) cf0 Map.empty env0 auth0),
          Error = Some (EventError ''StopStartedEvent''
                          (InitializationError (ExternalError ''subscriber failed'')))\<rparr> \<and>
   map (\<lambda>a. (is_Started a, is_Deploy a, is_SuccessOrFailure a, is_Finished a))
     (new_actions (world0 ())
        (snd (StopDeployment error_text (controller0 is_StopStarted) (deployment0 ''prod'' auth0)
                None (world0 ()))))
     = [(True, False, False, False), (False, False, True, False), (False, False, False, True)] \<and>
   fst (StopDeployment error_text
          ((controller0 is_StopStarted)\<lparr>ErrorFinder := (\<lambda>transcript. [diagnosis0])\<rparr>)
          (deployment0 ''prod'' auth0) None (world0 ()))
     = Returned
         \<lparr>StatusCode = 500,
          DeployResponse.DeploymentInfo =
            Some (deploymentInfo_of (controller0 is_StopStarted) cf0 Map.empty env0 auth0),
          Error = Some (MatchedError diagnosis0)\<rparr> \<and>
   fst (StopDeployment error_text
          ((controller0 is_StopStarted)
             \<lparr>ErrorFinder := (\<lambda>transcript. [diagnosis0\<lparr>Details := []\<rparr>])\<rparr>)
          (deployment0 ''prod'' auth0) None (world0 ()))
     = Panicked IndexOutOfRange \<and>
   map (\<lambda>a. (is_Started a, is_Deploy a, is_SuccessOrFailure a, is_Finished a))
     (new_actions (world0 ())
        (snd (StopDeployment error_text
                ((controller0 is_StopStarted)
                   \<lparr>ErrorFinder := (\<lambda>transcript. [diagnosis0\<lparr>Details := []\<rparr>])\<rparr>)
                (deployment0 ''prod'' auth0) None (world0 ()))))
     = [(True, False, False, False), (False, False, False, True)]"
  using start_failure [where c = "controller0 is_StopStarted" and d = "deployment0 ''prod'' auth0"
          and env = env0 and auth = auth0 and w = "world0 ()" and msg = error_text
          and ?data0.0 = None and err = "ExternalError ''subscriber failed''" and x = "()"
          and transcript = "[]"]
    start_failure [where c = "(controller0 is_StopStarted)\<lparr>ErrorFinder := (\<lambda>transcript. [diagnosis0])\<rparr>"
          and d = "deployment0 ''prod'' auth0"
          and env = env0 and auth = auth0 and w = "world0 ()" and msg = error_text
          and ?data0.0 = None and err = "ExternalError ''subscriber failed''" and x = "()"
          and transcript = "[]"]
    start_failure [where c = "(controller0 is_StopStarted)
             \<lparr>ErrorFinder := (\<lambda>transcript. [diagnosis0\<lparr>Details := []\<rparr>])\<rparr>"
          and d = "deployment0 ''prod'' auth0"
          and env = env0 and auth = auth0 and w = "world0 ()" and msg = error_text
          and ?data0.0 = None and err = "ExternalError ''subscriber failed''" and x = "()"
          and transcript = "[]"]
  by (simp add: fixture_defs run_defs controller_run_defs)

subsection \<open>Credentials\<close>

lemma StopDeployment_starts:
  assumes env: "Environments (Config c) (CFContext.Environment (Deployment.CFContext d)) = Some env"
    and auth: "fst (resolveAuthorization c (Deployment.Authorization d) env w) = (auth, None)"
  shows "\<exists>err rest. new_actions w (snd (StopDeployment msg c d data0 w)) =
            EmitEventCall (StopStartedEvent (Deployment.CFContext d) (data_of data0) env auth) err # rest \<and>
          (\<forall>di e. DeployCall di e \<in> set rest \<longrightarrow>
             di = deploymentInfo_of c (Deployment.CFContext d) (data_of data0) env auth)"
proof -
  let ?cf = "Deployment.CFContext d"
  let ?data = "data_of data0"
  let ?w2 = "logc (Debug ''checking for basic auth'')
             (logc (Debugf ''Preparing to stop %s with UUID %s''
                       [AStr (Application ?cf), AStr (DeploymentLogger.UUID (Log c))]) w)"
  from StopDeployment_resolved [OF env auth, of data0 msg]
  obtain bp dr w3 dp dr1 w4 w5 where
    b: "StopDeployment_body c ?cf ?data env auth (deploymentInfo_of c ?cf ?data env auth) ?w2
          = (bp, dr, w3)"
    and s: "emitStopSuccessOrFailure msg c ?cf auth env ?data dr w3 = (dp, dr1, w4)"
    and f: "emitStopFinish c ?cf auth env ?data dr1 w4 = (dr1, w5)"
    and r: "StopDeployment msg c d data0 w =
        ((case bp of Some pn \<Rightarrow> Panicked pn
          | None \<Rightarrow> (case dp of Some pn \<Rightarrow> Panicked pn | None \<Rightarrow> Returned dr1)), w5)"
    by blast
  from body_split [OF b] obtain err pre where
    t3: "trace w3 = trace w @ EmitEventCall (StopStartedEvent ?cf ?data env auth) err # pre"
    and pre: "\<forall>di e. DeployCall di e \<in> set pre \<longrightarrow> di = deploymentInfo_of c ?cf ?data env auth"
    by (auto split: prod.splits option.splits)
  from emitStopFinish_split [OF f] obtain ferr where
    t5: "trace w5 = trace w4 @ [EmitEventCall (StopFinishedEvent ?cf auth env ?data) ferr]"
    by blast
  obtain sf where t4: "trace w4 = trace w3 @ sf" and sf: "\<forall>di e. DeployCall di e \<notin> set sf"
  proof (cases dp)
    case None
    from emitSSOF_split(4) [OF s None] obtain serr where
      "trace w4 = trace w3 @
           [EmitEventCall (if Error dr = None then StopSuccessEvent ?cf auth env ?data
                           else StopFailureEvent ?cf auth env ?data (classified c (Error dr) (response w3)))
              serr]" by blast
    then show ?thesis
      by (intro that [of "[EmitEventCall (if Error dr = None then StopSuccessEvent ?cf auth env ?data
                           else StopFailureEvent ?cf auth env ?data (classified c (Error dr) (response w3)))
              serr]"]) auto
  next
    case (Some pn)
    with emitSSOF_split(3) [OF s] have "trace w4 = trace w3" by simp
    then show ?thesis by (intro that [of "[]"]) auto
  qed
  have "new_actions w w5 = EmitEventCall (StopStartedEvent ?cf ?data env auth) err
          # (pre @ sf @ [EmitEventCall (StopFinishedEvent ?cf auth env ?data) ferr])"
    using t3 t4 t5 by (simp add: new_actions_def)
  moreover have "\<forall>di e. DeployCall di e \<in> set (pre @ sf @ [EmitEventCall (StopFinishedEvent ?cf auth env ?data) ferr])
      \<longrightarrow> di = deploymentInfo_of c ?cf ?data env auth"
    using pre sf by auto
  ultimately show ?thesis unfolding r by (simp only: snd_conv) blast
qed

text \<open>
  Claim C8. A request with an empty username and an empty password, for an environment
  that resolves: when the environment asks for authentication, the call returns status
  401 with a \<open>BasicAuthError\<close> and the controller has called none of its collaborators
  (no started event); when it does not, the started event and the deployment carry the
  default username and password of the configuration.
\<close>

theorem missing_credentials:
  assumes env: "Environments (Config c) (CFContext.Environment (Deployment.CFContext d)) = Some env"
    and user: "Authorization.Username (Deployment.Authorization d) = []"
    and pass: "Authorization.Password (Deployment.Authorization d) = []"
  shows "(Authenticate env \<longrightarrow>
            fst (StopDeployment msg c d data0 w) =
              Returned \<lparr>StatusCode = 401, DeployResponse.DeploymentInfo = None,
                        Error = Some BasicAuthError\<rparr> \<and>
            new_actions w (snd (StopDeployment msg c d data0 w)) = []) \<and>
         (\<not> Authenticate env \<longrightarrow>
            (\<exists>err rest.
               new_actions w (snd (StopDeployment msg c d data0 w)) =
                 EmitEventCall
                   (StopStartedEvent (Deployment.CFContext d) (data_of data0) env
                      \<lparr>Authorization.Username = Config.Username (Config c),
                       Authorization.Password = Config.Password (Config c)\<rparr>) err # rest \<and>
               (\<forall>di e. DeployCall di e \<in> set rest \<longrightarrow>
                  DeploymentInfo.Username di = Config.Username (Config c) \<and>
                  DeploymentInfo.Password di = Config.Password (Config c))))"
proof (intro conjI impI)
  assume a: "Authenticate env"
  have re: "resolveEnvironment c (CFContext.Environment (Deployment.CFContext d)) = (env, None)"
    using env by (simp add: resolveEnvironment_def)
  have sd: "StopDeployment msg c d data0 w =
      (Returned \<lparr>StatusCode = 401, DeployResponse.DeploymentInfo = None, Error = Some BasicAuthError\<rparr>,
       logc (Debug ''checking for basic auth'')
         (logc (Debugf ''Preparing to stop %s with UUID %s''
                       [AStr (Application (Deployment.CFContext d)),
                        AStr (DeploymentLogger.UUID (Log c))]) w))"
    using a user pass
    by (simp add: StopDeployment_def Let_def re resolveAuthorization_def StatusUnauthorized_def)
  show "fst (StopDeployment msg c d data0 w) =
              Returned \<lparr>StatusCode = 401, DeployResponse.DeploymentInfo = None,
                        Error = Some BasicAuthError\<rparr>"
    by (simp add: sd)
  show "new_actions w (snd (StopDeployment msg c d data0 w)) = []"
    by (simp add: sd new_actions_def)
next
  assume a: "\<not> Authenticate env"
  let ?auth = "\<lparr>Authorization.Username = Config.Username (Config c),
                Authorization.Password = Config.Password (Config c)\<rparr>"
  have "fst (resolveAuthorization c (Deployment.Authorization d) env w) = (?auth, None)"
    using a user pass by (simp add: resolveAuthorization_result)
  from StopDeployment_starts [OF env this, of msg data0]
  show "\<exists>err rest.
               new_actions w (snd (StopDeployment msg c d data0 w)) =
                 EmitEventCall
                   (StopStartedEvent (Deployment.CFContext d) (data_of data0) env ?auth) err # rest \<and>
               (\<forall>di e. DeployCall di e \<in> set rest \<longrightarrow>
                  DeploymentInfo.Username di = Config.Username (Config c) \<and>
                  DeploymentInfo.Password di = Config.Password (Config c))"
    by (fastforce simp: deploymentInfo_of_def)
qed

text \<open>
  An anonymous request for an environment that authenticates, and for one that does not.
\<close>

theorem missing_credentials_witness:
  "Environments (Config (controller0 no_event))
     (CFContext.Environment (Deployment.CFContext
        (deployment0 ''secure'' \<lparr>Authorization.Username = [], Authorization.Password = []\<rparr>)))
     = Some (env0\<lparr>Authenticate := True\<rparr>) \<and>
   Authenticate (env0\<lparr>Authenticate := True\<rparr>) \<and>
   StopDeployment error_text (controller0 no_event)
       (deployment0 ''secure'' \<lparr>Authorization.Username = [], Authorization.Password = []\<rparr>) None
       (world0 ())
     = (Returned \<lparr>StatusCode = 401, DeployResponse.DeploymentInfo = None,
                  Error = Some BasicAuthError\<rparr>,
        \<lparr>ext = (), response = [], trace = [],
         logs = [Debugf ''Preparing to stop %s with UUID %s'' [AStr ''app'', AStr ''u1''],
                 Debug ''checking for basic auth'']\<rparr>) \<and>
   Environments (Config (controller0 no_event))
     (CFContext.Environment (Deployment.CFContext
        (deployment0 ''prod'' \<lparr>Authorization.Username = [], Authorization.Password = []\<rparr>)))
     = Some env0 \<and>
   \<not> Authenticate env0 \<and>
   take 2 (new_actions (world0 ())
        (snd (StopDeployment error_text (controller0 no_event)
                (deployment0 ''prod'' \<lparr>Authorization.Username = [], Authorization.Password = []\<rparr>)
                None (world0 ()))))
     = [EmitEventCall
          (StopStartedEvent cf0 Map.empty env0
             \<lparr>Authorization.Username = ''admin'', Authorization.Password = ''secret''\<rparr>) None,
        DeployCall
          (deploymentInfo_of (controller0 no_event) cf0 Map.empty env0
             \<lparr>Authorization.Username = ''admin'', Authorization.Password = ''secret''\<rparr>) env0]"
  using missing_credentials [where c = "controller0 no_event"
          and d = "deployment0 ''secure'' \<lparr>Authorization.Username = [], Authorization.Password = []\<rparr>"
          and env = "env0\<lparr>Authenticate := True\<rparr>" and w = "world0 ()" and msg = error_text
          and ?data0.0 = None]
    missing_credentials [where c = "controller0 no_event"
          and d = "deployment0 ''prod'' \<lparr>Authorization.Username = [], Authorization.Password = []\<rparr>"
          and env = env0 and w = "world0 ()" and msg = error_text and ?data0.0 = None]
  by (simp add: fixture_defs run_defs controller_run_defs)

text \<open>
  Claim C9. When exactly one of username and password is empty, \<open>resolveAuthorization\<close>
  returns the credentials it was given and no error, whatever the environment says
  about authentication, and \<open>StopDeployment\<close> goes on to emit the started event with
  those credentials.
\<close>

theorem partial_credentials:
  assumes one: "(Authorization.Username auth = []) \<noteq> (Authorization.Password auth = [])"
  shows "fst (resolveAuthorization c auth envs w) = (auth, None) \<and>
         (\<forall>d env. Deployment.Authorization d = auth \<and>
              Environments (Config c) (CFContext.Environment (Deployment.CFContext d)) = Some env \<longrightarrow>
            (\<exists>err rest. new_actions w (snd (StopDeployment msg c d data0 w)) =
               EmitEventCall (StopStartedEvent (Deployment.CFContext d) (data_of data0) env auth) err
                 # rest))"
proof (intro conjI allI impI)
  show r: "fst (resolveAuthorization c auth envs w) = (auth, None)" for envs
    using one by (auto simp: resolveAuthorization_result)
  fix d :: Deployment and env
  assume "Deployment.Authorization d = auth \<and>
              Environments (Config c) (CFContext.Environment (Deployment.CFContext d)) = Some env"
  then have a: "fst (resolveAuthorization c (Deployment.Authorization d) env w) = (auth, None)"
    and env: "Environments (Config c) (CFContext.Environment (Deployment.CFContext d)) = Some env"
    using r by simp_all
  from StopDeployment_starts [where msg = msg and ?data0.0 = data0, OF env a]
  show "\<exists>err rest. new_actions w (snd (StopDeployment msg c d data0 w)) =
               EmitEventCall (StopStartedEvent (Deployment.CFContext d) (data_of data0) env auth) err
                 # rest"
    by blast
qed

text \<open>A username without a password, for an environment that authenticates.\<close>

theorem partial_credentials_witness:
  "(Authorization.Username \<lparr>Authorization.Username = ''bob'', Authorization.Password = []\<rparr> = [])
     \<noteq> (Authorization.Password \<lparr>Authorization.Username = ''bob'', Authorization.Password = []\<rparr> = []) \<and>
   Authenticate (env0\<lparr>Authenticate := True\<rparr>) \<and>
   Environments (Config (controller0 no_event))
     (CFContext.Environment (Deployment.CFContext
        (deployment0 ''secure'' \<lparr>Authorization.Username = ''bob'', Authorization.Password = []\<rparr>)))
     = Some (env0\<lparr>Authenticate := True\<rparr>) \<and>
   fst (resolveAuthorization (controller0 no_event)
          \<lparr>Authorization.Username = ''bob'', Authorization.Password = []\<rparr>
          (env0\<lparr>Authenticate := True\<rparr>) (world0 ()))
     = (\<lparr>Authorization.Username = ''bob'', Authorization.Password = []\<rparr>, None) \<and>
   hd (new_actions (world0 ())
        (snd (StopDeployment error_text (controller0 no_event)
                (deployment0 ''secure'' \<lparr>Authorization.Username = ''bob'', Authorization.Password = []\<rparr>)
                None (world0 ()))))
     = EmitEventCall
          (StopStartedEvent (cf0\<lparr>CFContext.Environment := ''secure''\<rparr>) Map.empty
             (env0\<lparr>Authenticate := True\<rparr>)
             \<lparr>Authorization.Username = ''bob'', Authorization.Password = []\<rparr>) None"
  using partial_credentials [where c = "controller0 no_event"
          and auth = "\<lparr>Authorization.Username = ''bob'', Authorization.Password = []\<rparr>"
          and envs = "env0\<lparr>Authenticate := True\<rparr>" and w = "world0 ()" and msg = error_text
          and ?data0.0 = None]
  by (simp add: fixture_defs run_defs controller_run_defs)

subsection \<open>Errors of the deferred emissions\<close>

lemma deploy_mute:
  "deploy (c\<lparr>StopController.EventManager := em\<rparr>) di env m w = deploy c di env m w"
  by (simp add: deploy_def)

lemma emit_started_mute:
  "emit_event (mute em) (StopStartedEvent cf d e a) w = emit_event em (StopStartedEvent cf d e a) w"
  by (simp add: emit_event_def mute_def)

lemma body_mute:
  "StopDeployment_body (c\<lparr>StopController.EventManager := mute (StopController.EventManager c)\<rparr>)
       cf data env auth di w
     = StopDeployment_body c cf data env auth di w"
  by (simp add: StopDeployment_body_def deploy_mute emit_started_mute
        cong: option.case_cong prod.case_cong)

lemma controller_mute [simp]:
  "fst (resolveAuthorization (c\<lparr>StopController.EventManager := em\<rparr>) a e w)
     = fst (resolveAuthorization c a e w)"
  "deploymentInfo_of (c\<lparr>StopController.EventManager := em\<rparr>) = deploymentInfo_of c"
  "classified (c\<lparr>StopController.EventManager := em\<rparr>) = classified c"
  by (simp_all add: resolveAuthorization_result deploymentInfo_of_def classified_def fun_eq_iff
        cong: option.case_cong list.case_cong)

lemma emitSSOF_outcome:
  "fst (emitStopSuccessOrFailure msg c cf auth env data dr w) =
      (if Error dr \<noteq> None \<and> lacks_details (ErrorFinder c (response w))
       then Some IndexOutOfRange else None) \<and>
   fst (snd (emitStopSuccessOrFailure msg c cf auth env data dr w)) =
      dr\<lparr>Error := classified c (Error dr) (response w)\<rparr>"
proof -
  obtain pn dr1 w' where s: "emitStopSuccessOrFailure msg c cf auth env data dr w = (pn, dr1, w')"
    by (metis prod.collapse)
  from emitSSOF_split(1,2) [OF s] show ?thesis unfolding s by simp
qed

lemma emitStopFinish_fst: "fst (emitStopFinish c cf auth env data dr w) = dr"
  by (simp add: emitStopFinish_def Let_def split: prod.splits)

lemma StopDeployment_outcome:
  "fst (StopDeployment msg c d data0 w) =
     (let cf = Deployment.CFContext d;
          w1 = logc (Debugf ''Preparing to stop %s with UUID %s''
                       [AStr (Application cf), AStr (DeploymentLogger.UUID (Log c))]) w
      in case Environments (Config c) (CFContext.Environment cf) of
           None \<Rightarrow> Returned \<lparr>StatusCode = 500, DeployResponse.DeploymentInfo = None,
                               Error = Some (EnvironmentNotFoundError (CFContext.Environment cf))\<rparr>
         | Some env \<Rightarrow>
             (case fst (resolveAuthorization c (Deployment.Authorization d) env w) of
                (auth, Some err) \<Rightarrow>
                  Returned \<lparr>StatusCode = 401, DeployResponse.DeploymentInfo = None, Error = Some err\<rparr>
              | (auth, None) \<Rightarrow>
                  (case StopDeployment_body c cf (data_of data0) env auth
                          (deploymentInfo_of c cf (data_of data0) env auth)
                          (logc (Debug ''checking for basic auth'') w1) of
                     (bp, dr, w3) \<Rightarrow>
                       (case bp of
                          Some pn \<Rightarrow> Panicked pn
                        | None \<Rightarrow>
                            if Error dr \<noteq> None \<and> lacks_details (ErrorFinder c (response w3))
                            then Panicked IndexOutOfRange
                            else Returned (dr\<lparr>Error := classified c (Error dr) (response w3)\<rparr>)))))"
proof (cases "Environments (Config c) (CFContext.Environment (Deployment.CFContext d))")
  case None
  then show ?thesis
    by (simp add: StopDeployment_def Let_def resolveEnvironment_def StatusInternalServerError_def)
next
  case (Some env)
  obtain auth ae where ra: "fst (resolveAuthorization c (Deployment.Authorization d) env w) = (auth, ae)"
    by (metis prod.collapse)
  show ?thesis
  proof (cases ae)
    case (Some err)
    let ?w1 = "logc (Debugf ''Preparing to stop %s with UUID %s''
                       [AStr (Application (Deployment.CFContext d)),
                        AStr (DeploymentLogger.UUID (Log c))]) w"
    have "fst (resolveAuthorization c (Deployment.Authorization d) env ?w1) = (auth, Some err)"
      using ra Some by (simp only: resolveAuthorization_result)
    then obtain w2 where "resolveAuthorization c (Deployment.Authorization d) env ?w1
         = ((auth, Some err), w2)" by (metis prod.collapse)
    then show ?thesis
      using \<open>Environments (Config c) (CFContext.Environment (Deployment.CFContext d)) = Some env\<close>
        ra Some
      by (simp add: StopDeployment_def Let_def resolveEnvironment_def StatusUnauthorized_def)
  next
    case None
    with ra have ra': "fst (resolveAuthorization c (Deployment.Authorization d) env w) = (auth, None)"
      by simp
    from StopDeployment_resolved [OF Some ra', of data0 msg]
    obtain bp dr w3 dp dr1 w4 w5 where
      b: "StopDeployment_body c (Deployment.CFContext d) (data_of data0) env auth
            (deploymentInfo_of c (Deployment.CFContext d) (data_of data0) env auth)
            (logc (Debug ''checking for basic auth'')
               (logc (Debugf ''Preparing to stop %s with UUID %s''
                       [AStr (Application (Deployment.CFContext d)),
                        AStr (DeploymentLogger.UUID (Log c))]) w)) = (bp, dr, w3)"
      and s: "emitStopSuccessOrFailure msg c (Deployment.CFContext d) auth env (data_of data0) dr w3
                = (dp, dr1, w4)"
      and r: "StopDeployment msg c d data0 w =
        ((case bp of Some pn \<Rightarrow> Panicked pn
          | None \<Rightarrow> (case dp of Some pn \<Rightarrow> Panicked pn | None \<Rightarrow> Returned dr1)), w5)"
      by blast
    from emitSSOF_split(1,2) [OF s] show ?thesis
      unfolding r using Some ra' b by (simp add: Let_def split: option.splits)
  qed
qed


lemma emit_event_logs: "emit_event em e w = (r, w') \<Longrightarrow> logs w' = logs w"
  by (auto simp: emit_event_def split: prod.splits)

lemma emitSSOF_reports:
  assumes t: "new_actions w (snd (snd (emitStopSuccessOrFailure msg c cf auth env data dr w)))
                = [EmitEventCall ev (Some eventErr)]"
  shows "logged_and_written msg ev eventErr w
           (snd (snd (emitStopSuccessOrFailure msg c cf auth env data dr w)))"
proof -
  let ?em = "StopController.EventManager c"
  obtain pn0 dr0 event w1 where first:
    "(if Error dr \<noteq> None
      then (case printErrors c (Error dr) w of
              (pn, err, w1) \<Rightarrow>
                (pn, dr\<lparr>Error := err\<rparr>, StopFailureEvent cf auth env data err, w1))
      else (None, dr, StopSuccessEvent cf auth env data, w)) = (pn0, dr0, event, w1)"
    by (cases "(if Error dr \<noteq> None
      then (case printErrors c (Error dr) w of
              (pn, err, w1) \<Rightarrow>
                (pn, dr\<lparr>Error := err\<rparr>, StopFailureEvent cf auth env data err, w1))
      else (None, dr, StopSuccessEvent cf auth env data, w))") blast
  have frame1: "trace w1 = trace w \<and> logs w1 = logs w"
  proof (cases "Error dr = None")
    case True
    with first show ?thesis by simp
  next
    case False
    obtain pn err w1' where pe: "printErrors c (Error dr) w = (pn, err, w1')"
      by (cases "printErrors c (Error dr) w") blast
    from first False pe have "w1 = w1'" by simp
    with printErrors_split [OF pe] show ?thesis by simp
  qed
  show ?thesis
  proof (cases pn0)
    case (Some pn)
    then have "emitStopSuccessOrFailure msg c cf auth env data dr w = (Some pn, dr0, w1)"
      unfolding emitStopSuccessOrFailure_def first by simp
    with t frame1 show ?thesis by (simp add: new_actions_def)
  next
    case None
    let ?w2 = "logc (Debugf ''emitting a %s event'' [AName event]) w1"
    obtain ee w3 where em: "emit_event ?em event ?w2 = (ee, w3)" by (metis prod.collapse)
    from emit_event_split [OF em] emit_event_logs [OF em] frame1
    have t3: "trace w3 = trace w @ [EmitEventCall event ee]"
      and l3: "logs w3 = logs w @ [Debugf ''emitting a %s event'' [AName event]]"
      by simp_all
    show ?thesis
    proof (cases ee)
      case None
      with \<open>pn0 = None\<close> em
      have "emitStopSuccessOrFailure msg c cf auth env data dr w = (None, dr0, w3)"
        unfolding emitStopSuccessOrFailure_def first by (simp add: Let_def)
      with t t3 None show ?thesis by (simp add: new_actions_def)
    next
      case (Some eventErr')
      let ?w5 = "Fprintln (msg eventErr')
                   (logc (Errorf ''an error occurred when emitting a %s event: %s''
                            [AName event, AErr eventErr']) w3)"
      from \<open>pn0 = None\<close> em Some
      have s: "emitStopSuccessOrFailure msg c cf auth env data dr w = (None, dr0, ?w5)"
        unfolding emitStopSuccessOrFailure_def first by (simp add: Let_def)
      from t t3 Some have ev: "ev = event" "eventErr = eventErr'"
        unfolding s by (simp_all add: new_actions_def)
      show ?thesis
        unfolding s ev logged_and_written_def
        by (simp add: l3)
    qed
  qed
qed

text \<open>
  Claim C10 as it is worded has every emission error logged and written to the response
  sink. \<open>emitStopFinish\<close> drops the error of the finished event: with a subscriber that
  fails on it, the error is neither in the log nor in the sink.
\<close>

theorem emission_errors_frame_counterexample:
  "last (trace (snd (StopDeployment error_text (controller0 is_StopFinished)
                        (deployment0 ''prod'' auth0) None (world0 ()))))
     = EmitEventCall (StopFinishedEvent cf0 auth0 env0 Map.empty)
         (Some (ExternalError ''subscriber failed'')) \<and>
   \<not> logged_and_written error_text (StopFinishedEvent cf0 auth0 env0 Map.empty)
        (ExternalError ''subscriber failed'') (world0 ())
        (snd (StopDeployment error_text (controller0 is_StopFinished)
                (deployment0 ''prod'' auth0) None (world0 ())))"
  by (simp add: fixture_defs run_defs controller_run_defs logged_and_written_def)

text \<open>
  Claim C10, as amended. An error returned by the emission of the success, failure or
  finished event leaves the result of \<open>StopDeployment\<close> as it is: the call returns the
  same with an event manager that reports no such error. The deferred emissions change
  nothing of the result but its error, which the classifier replaces by the first
  diagnosis found. An error of the success or failure emission is logged and written to
  the response sink.
\<close>

theorem emission_errors_frame:
  "fst (StopDeployment msg (c\<lparr>StopController.EventManager := mute (StopController.EventManager c)\<rparr>)
          d data0 w)
     = fst (StopDeployment msg c d data0 w) \<and>
   fst (snd (emitStopSuccessOrFailure msg c cf auth env data dr w))
     = dr\<lparr>Error := classified c (Error dr) (response w)\<rparr> \<and>
   fst (emitStopFinish c cf auth env data dr w) = dr \<and>
   (\<forall>ev eventErr.
      new_actions w (snd (snd (emitStopSuccessOrFailure msg c cf auth env data dr w)))
        = [EmitEventCall ev (Some eventErr)] \<longrightarrow>
      logged_and_written msg ev eventErr w
        (snd (snd (emitStopSuccessOrFailure msg c cf auth env data dr w))))"
proof (intro conjI allI impI)
  show "fst (StopDeployment msg (c\<lparr>StopController.EventManager := mute (StopController.EventManager c)\<rparr>)
          d data0 w)
     = fst (StopDeployment msg c d data0 w)"
    unfolding StopDeployment_outcome body_mute
    by (simp cong: option.case_cong prod.case_cong if_cong)
  show "fst (snd (emitStopSuccessOrFailure msg c cf auth env data dr w))
     = dr\<lparr>Error := classified c (Error dr) (response w)\<rparr>"
    by (simp add: emitSSOF_outcome)
  show "fst (emitStopFinish c cf auth env data dr w) = dr"
    by (rule emitStopFinish_fst)
  fix ev eventErr
  assume "new_actions w (snd (snd (emitStopSuccessOrFailure msg c cf auth env data dr w)))
        = [EmitEventCall ev (Some eventErr)]"
  then show "logged_and_written msg ev eventErr w
        (snd (snd (emitStopSuccessOrFailure msg c cf auth env data dr w)))"
    by (rule emitSSOF_reports)
qed

text \<open>
  A subscriber of the success event fails: the error is logged and written, and the result
  is that of a run without the failure.
\<close>

theorem emission_errors_frame_witness:
  "new_actions (world0 ())
     (snd (snd (emitStopSuccessOrFailure error_text (controller0 is_StopSuccess) cf0 auth0 env0
                  Map.empty zero_DeployResponse (world0 ()))))
     = [EmitEventCall (StopSuccessEvent cf0 auth0 env0 Map.empty)
          (Some (ExternalError ''subscriber failed''))] \<and>
   logged_and_written error_text (StopSuccessEvent cf0 auth0 env0 Map.empty)
     (ExternalError ''subscriber failed'') (world0 ())
     (snd (snd (emitStopSuccessOrFailure error_text (controller0 is_StopSuccess) cf0 auth0 env0
                  Map.empty zero_DeployResponse (world0 ())))) \<and>
   fst (StopDeployment error_text (controller0 is_StopSuccess) (deployment0 ''prod'' auth0) None
          (world0 ()))
     = fst (StopDeployment error_text (controller0 no_event) (deployment0 ''prod'' auth0) None
              (world0 ()))"
  using emission_errors_frame [where c = "controller0 is_StopSuccess" and cf = cf0 and auth = auth0
          and env = env0 and data = Map.empty and dr = zero_DeployResponse and w = "world0 ()"
          and msg = error_text and d = "deployment0 ''prod'' auth0" and ?data0.0 = None]
  by (simp add: fixture_defs run_defs controller_run_defs logged_and_written_def
        zero_DeployResponse_def)

end
